theory Spec2Isabelle
  imports Complex_Main "HOL-Library.Word" "HOL-Library.Multiset"
begin

unbundle bit_operations_syntax

section \<open>The doogle node: data model\<close>

text \<open>
  The development follows \<^verbatim>\<open>node.go\<close> (package \<^verbatim>\<open>node\<close>). Go strings and byte
  slices are lists of 8-bit characters (\<^typ>\<open>string\<close>). Go's \<^verbatim>\<open>int\<close> is modelled by
  \<^typ>\<open>int\<close>: every integer handled below stays far inside 64 bits. \<^verbatim>\<open>float64\<close>
  ranks are idealised as \<^typ>\<open>real\<close>; no result below depends on rank arithmetic.
  Logging is not modelled.
\<close>

datatype error = InvalidArgument | Internal | OutOfRange | Panic | NoReturn

definition alpha :: nat where "alpha = 3"
definition bucketSize :: nat where "bucketSize = 20"
definition maxNumGetItem :: nat where "maxNumGetItem = 20"

text \<open>
  Modelled from the spec: \<^verbatim>\<open>address.go\<close> (the type \<^verbatim>\<open>doogleAddress\<close>, its constants
  and its methods) is not among the sources. An address is an array of 20 bytes, read
  big-endian as a 160-bit word.
\<close>

type_synonym doogleAddress = "160 word"
type_synonym doogleAddressStr = string

definition addressLength :: nat where "addressLength = 20"
definition addressBits :: nat where "addressBits = 160"

text \<open>\<^verbatim>\<open>copy(da[:], bs)\<close> into a zeroed array: at most 20 bytes are taken, the rest stays 0.\<close>

definition toAddress :: "string \<Rightarrow> doogleAddress" where
  "toAddress bs =
     foldl (\<lambda>acc c. push_bit 8 acc OR of_nat (of_char c)) 0
       (take addressLength (bs @ replicate addressLength (CHR 0x00)))"

text \<open>\<^verbatim>\<open>da[:]\<close>: the 20 bytes of an address.\<close>

definition addressBytes :: "doogleAddress \<Rightarrow> string" where
  "addressBytes a =
     map (\<lambda>i. char_of (unat (drop_bit (8 * (addressLength - 1 - i)) a))) [0..<addressLength]"

text \<open>Modelled from the spec: \<^verbatim>\<open>xor(a,b)\<close> is the byte-wise XOR.\<close>

definition xorAddress :: "doogleAddress \<Rightarrow> doogleAddress \<Rightarrow> doogleAddress" where
  "xorAddress a b = a XOR b"

text \<open>
  Modelled from the spec: \<^verbatim>\<open>lessOrEqual(a,b)\<close> is the unsigned lexicographic comparison
  of the bytes, big-endian (\<^verbatim>\<open>TestLessThan\<close> agrees).
\<close>

definition lessThanEqual :: "doogleAddress \<Rightarrow> doogleAddress \<Rightarrow> bool" where
  "lessThanEqual a b = (a \<le> b)"

text \<open>
  Modelled from the spec: \<^verbatim>\<open>msb(d)\<close> is the index (0..159) of the highest set bit of a
  160-bit value, and -1 iff \<^verbatim>\<open>d\<close> is zero.
\<close>

definition getMostSignificantBit :: "doogleAddress \<Rightarrow> int" where
  "getMostSignificantBit d =
     (case find (\<lambda>i. bit d i) (rev [0..<addressBits]) of None \<Rightarrow> - 1 | Some i \<Rightarrow> int i)"

text \<open>The number of leading zero bits of an address.\<close>

definition leadingZeroBits :: "doogleAddress \<Rightarrow> int" where
  "leadingZeroBits a = int addressBits - 1 - getMostSignificantBit a"

subsection \<open>SHA-1\<close>

text \<open>
  \<^verbatim>\<open>sha1.Sum\<close> of the Go library \<^verbatim>\<open>crypto/sha1\<close>, after FIPS 180-4: the message is
  padded to blocks of 64 bytes, and each block runs 80 rounds over its expanded message
  schedule. The functions of the node take the hash as the parameter \<open>sha1Sum\<close>;
  the examples instantiate it with \<open>sha1\<close>.
\<close>

definition rotl32 :: "nat \<Rightarrow> 32 word \<Rightarrow> 32 word" where
  "rotl32 n w = push_bit n w OR drop_bit (32 - n) w"

definition be32 :: "string \<Rightarrow> 32 word" where
  "be32 bs = foldl (\<lambda>acc c. push_bit 8 acc OR of_nat (of_char c)) 0 bs"

fun chunks :: "nat \<Rightarrow> nat \<Rightarrow> 'a list \<Rightarrow> 'a list list" where
  "chunks 0 k xs = []"
| "chunks (Suc n) k xs = take k xs # chunks n k (drop k xs)"

definition sha1Pad :: "string \<Rightarrow> string" where
  "sha1Pad m =
     m @ [CHR 0x80] @ replicate ((119 - length m mod 64) mod 64) (CHR 0x00)
       @ map (\<lambda>i. char_of ((8 * length m) div 256 ^ (7 - i))) [0, 1, 2, 3, 4, 5, 6, 7 :: nat]"

text \<open>The message schedule, newest word first.\<close>

fun expand :: "nat \<Rightarrow> 32 word list \<Rightarrow> 32 word list" where
  "expand 0 rw = rw"
| "expand (Suc n) rw = expand n (rotl32 1 (rw ! 2 XOR rw ! 7 XOR rw ! 13 XOR rw ! 15) # rw)"

type_synonym sha1State = "32 word \<times> 32 word \<times> 32 word \<times> 32 word \<times> 32 word"

fun sha1Round :: "nat \<Rightarrow> sha1State \<Rightarrow> 32 word \<Rightarrow> sha1State" where
  "sha1Round t (a, b, c, d, e) w =
     (rotl32 5 a
        + (if t < 20 then (b AND c) OR (NOT b AND d)
           else if t < 40 then b XOR c XOR d
           else if t < 60 then (b AND c) OR (b AND d) OR (c AND d)
           else b XOR c XOR d)
        + e
        + (if t < 20 then 0x5A827999 else if t < 40 then 0x6ED9EBA1
           else if t < 60 then 0x8F1BBCDC else 0xCA62C1D6)
        + w,
      a, rotl32 30 b, c, d)"

fun sha1Rounds :: "nat \<Rightarrow> sha1State \<Rightarrow> 32 word list \<Rightarrow> sha1State" where
  "sha1Rounds t s [] = s"
| "sha1Rounds t s (w # ws) = sha1Rounds (Suc t) (sha1Round t s w) ws"

fun sha1Block :: "sha1State \<Rightarrow> string \<Rightarrow> sha1State" where
  "sha1Block (h0, h1, h2, h3, h4) bs =
     (case sha1Rounds 0 (h0, h1, h2, h3, h4) (rev (expand 64 (rev (map be32 (chunks 16 4 bs))))) of
        (a, b, c, d, e) \<Rightarrow> (h0 + a, h1 + b, h2 + c, h3 + d, h4 + e))"

declare sha1Block.simps [simp del]

definition wordBytes :: "32 word \<Rightarrow> string" where
  "wordBytes w = map (\<lambda>i. char_of (unat (drop_bit (8 * (3 - i)) w))) [0, 1, 2, 3 :: nat]"

definition sha1 :: "string \<Rightarrow> string" where
  "sha1 m =
     (case foldl sha1Block (0x67452301, 0xEFCDAB89, 0x98BADCFE, 0x10325476, 0xC3D2E1F0)
             (chunks (length (sha1Pad m) div 64) 64 (sha1Pad m)) of
        (h0, h1, h2, h3, h4) \<Rightarrow> concat (map wordBytes [h0, h1, h2, h3, h4]))"

text \<open>
  Modelled from the spec and the vectors of \<^verbatim>\<open>TestVerifyAddress\<close>:
  \<^verbatim>\<open>verifyAddress\<close> is not among the sources. By the spec it recomputes the hash and
  checks equality and the leading-zero-bit count. The test accepts one address with two
  different nonces, at difficulty 1 and 2, and that address is the SHA-1 digest of host,
  port and public key and starts with a set bit. So the address is the digest without the
  nonce, and the leading \<^verbatim>\<open>difficulty\<close> zero bits are those of the digest of host,
  port, public key and nonce. This is the six-argument form that the tests call.
\<close>

definition verifyAddressHostPort ::
  "(string \<Rightarrow> string) \<Rightarrow> doogleAddress \<Rightarrow> string \<Rightarrow> string \<Rightarrow> string \<Rightarrow> string \<Rightarrow> int \<Rightarrow> bool" where
  "verifyAddressHostPort sha1Sum da host port pk nnc dif =
     (toAddress (sha1Sum (host @ port @ pk)) = da
      \<and> dif \<le> leadingZeroBits (toAddress (sha1Sum (host @ port @ pk @ nnc))))"

text \<open>
  \<^verbatim>\<open>verifyAddress\<close> as \<^verbatim>\<open>node.go\<close> calls it, with the network address in the place
  of host and port.
\<close>

definition verifyAddress ::
  "(string \<Rightarrow> string) \<Rightarrow> doogleAddress \<Rightarrow> string \<Rightarrow> string \<Rightarrow> string \<Rightarrow> int \<Rightarrow> bool" where
  "verifyAddress sha1Sum da networkAddress pk nnc dif =
     verifyAddressHostPort sha1Sum da networkAddress [] pk nnc dif"


subsection \<open>Records of the node\<close>

record nodeInfo =
  dAddr :: doogleAddress
  nAddr :: string
  accessedAt :: int

text \<open>
  The wire messages (\<^verbatim>\<open>doogle.NodeCertificate\<close>, \<^verbatim>\<open>doogle.NodeInfo\<close>,
  \<^verbatim>\<open>doogle.Item\<close>). The fields of the last two carry a prefix, since a field name
  is a constant of the theory.
\<close>

record NodeCertificate =
  NetworkAddress :: string
  DoogleAddress :: string
  PublicKey :: string
  Nonce :: string
  Difficulty :: int

record NodeInfo =
  InfoDoogleAddress :: string
  InfoNetworkAddress :: string

record Item =
  ItemUrl :: string
  ItemTitle :: string
  ItemLocalRank :: real

record item =
  dAddrStr :: doogleAddressStr
  url :: string
  title :: string
  edges :: "doogleAddressStr list"
  localRank :: real
  rankComputedCount :: real

text \<open>
  A \<^verbatim>\<open>*doogle.NodeCertificate\<close> argument. \<^verbatim>\<open>isValidSender\<close> compares the pointer with
  \<^verbatim>\<open>n.certificate\<close>, so a reference is nil, the node's own certificate object, or
  another object with its contents.
\<close>

datatype certRef = NilCert | OwnCert | OtherCert NodeCertificate

text \<open>
  The node. \<^verbatim>\<open>sync.Map\<close> fields are maps; a \<^verbatim>\<open>dhtValue\<close> is its list of item
  addresses and a routing bucket its list of peers (the mutexes are not modelled: each
  operation below runs atomically). \<open>crawlJobs\<close> records the calls of
  \<^verbatim>\<open>n.crawler.Crawl\<close>, \<open>queueCap\<close> is the capacity of the PageRank channel.
\<close>

record Node =
  DAddr :: doogleAddress
  routingTable :: "int \<rightharpoonup> nodeInfo list"
  dht :: "doogleAddressStr \<rightharpoonup> doogleAddressStr list"
  items :: "doogleAddressStr \<rightharpoonup> item"
  publicKey :: string
  secretKey :: string
  nonce :: string
  difficulty :: int
  certificate :: NodeCertificate
  crawlJobs :: "string list list"
  nAddrToConn :: "string list"
  pageRankComputingQueue :: "doogleAddressStr list"
  queueCap :: nat

section \<open>Routing table\<close>

text \<open>\<^verbatim>\<open>popAndAppend\<close>: the loop fills a new slice of the old length.\<close>

definition popAndAppend :: "nat \<Rightarrow> nodeInfo \<Rightarrow> nodeInfo list \<Rightarrow> nodeInfo list" where
  "popAndAppend idx ni prev =
     (let l = length prev
      in map (\<lambda>i. if i + 1 = l then ni else if i < idx then prev ! i else prev ! (i + 1)) [0..<l])"

text \<open>
  \<^verbatim>\<open>updateRoutingTable\<close>. The time of the call is the argument \<open>now\<close>. A missing
  bucket is the panic of the source.
\<close>

definition updateRoutingTable :: "Node \<Rightarrow> nodeInfo \<Rightarrow> int \<Rightarrow> error + Node" where
  "updateRoutingTable n info now =
     (let idx = getMostSignificantBit (xorAddress (DAddr n) (dAddr info))
      in if idx < 0 then Inr n
         else case routingTable n idx of
           None \<Rightarrow> Inl Panic
         | Some rb \<Rightarrow>
             (case find (\<lambda>(i, m). dAddr m = dAddr info) (enumerate 0 rb) of
                Some (i, m) \<Rightarrow>
                  Inr (n\<lparr>routingTable :=
                         (routingTable n)(idx \<mapsto> popAndAppend i (m\<lparr>accessedAt := now\<rparr>) rb)\<rparr>)
              | None \<Rightarrow>
                  (let ni = \<lparr>dAddr = dAddr info, nAddr = nAddr info, accessedAt = now\<rparr>
                   in Inr (n\<lparr>routingTable :=
                         (routingTable n)(idx \<mapsto>
                            (if length rb < bucketSize then rb @ [ni]
                             else popAndAppend 0 ni rb))\<rparr>))))"

text \<open>
  \<^verbatim>\<open>isValidSender\<close>. A nil certificate is dereferenced at \<^verbatim>\<open>ct.DoogleAddress\<close>,
  which panics. The result is the returned boolean and the node after the call.
\<close>

definition isValidSender ::
  "(string \<Rightarrow> string) \<Rightarrow> Node \<Rightarrow> int \<Rightarrow> certRef \<Rightarrow> error + bool \<times> Node" where
  "isValidSender sha1Sum n now ref =
     (case ref of
        OwnCert \<Rightarrow> Inr (True, n)
      | NilCert \<Rightarrow> Inl Panic
      | OtherCert ct \<Rightarrow>
          if length (DoogleAddress ct) < addressLength \<or> Difficulty ct < difficulty n
          then Inr (False, n)
          else
            (let da = toAddress (DoogleAddress ct)
             in if verifyAddress sha1Sum da (NetworkAddress ct) (PublicKey ct) (Nonce ct)
                     (Difficulty ct)
                then (case updateRoutingTable n
                             \<lparr>dAddr = da, nAddr = NetworkAddress ct, accessedAt = now\<rparr> now of
                        Inl e \<Rightarrow> Inl e
                      | Inr n' \<Rightarrow> Inr (True, n'))
                else Inr (False, n)))"

text \<open>The certificate that a reference points to (a nil reference points to none).\<close>

definition certContents :: "Node \<Rightarrow> certRef \<Rightarrow> NodeCertificate" where
  "certContents n ref = (case ref of OtherCert ct \<Rightarrow> ct | _ \<Rightarrow> certificate n)"

section \<open>Lookup\<close>

definition getNextOffset :: "int \<Rightarrow> int \<Rightarrow> error + int" where
  "getNextOffset msb prevOffset =
     (let next0 = prevOffset * - 1;
          next = (if prevOffset \<le> 0 then next0 + 1 else next0)
      in if msb + next > 159 \<and> msb + (next * - 1) \<ge> 0 then Inr (next * - 1)
         else if msb + next < 0 \<and> msb + (next * - 1 + 1) < 160 then Inr (next * - 1 + 1)
         else if (msb + next > 159 \<and> msb + (next * - 1) < 0)
               \<or> (msb + next < 0 \<and> msb + (next * - 1 + 1) \<ge> 160) then Inl OutOfRange
         else Inr next)"

text \<open>
  \<^verbatim>\<open>sort.Slice\<close> is a library function; it is modelled by insertion sort with the
  comparator of the call. When no two elements compare equal, every correct sort returns
  the same list.
\<close>

fun insertBy :: "('a \<Rightarrow> 'a \<Rightarrow> bool) \<Rightarrow> 'a \<Rightarrow> 'a list \<Rightarrow> 'a list" where
  "insertBy lessFn x [] = [x]"
| "insertBy lessFn x (y # ys) = (if lessFn x y then x # y # ys else y # insertBy lessFn x ys)"

definition sortSlice :: "('a \<Rightarrow> 'a \<Rightarrow> bool) \<Rightarrow> 'a list \<Rightarrow> 'a list" where
  "sortSlice lessFn xs = foldr (insertBy lessFn) xs []"

definition toNodeInfo :: "nodeInfo \<Rightarrow> NodeInfo" where
  "toNodeInfo x = \<lparr>InfoDoogleAddress = addressBytes (dAddr x), InfoNetworkAddress = nAddr x\<rparr>"

text \<open>The peers that \<^verbatim>\<open>findNearestNode\<close> takes from a non-empty bucket.\<close>

definition nearestPeers :: "doogleAddress \<Rightarrow> nodeInfo list \<Rightarrow> nodeInfo list" where
  "nearestPeers targetAddr bucket =
     (if length bucket < alpha then bucket
      else take alpha
             (sortSlice (\<lambda>x y. lessThanEqual (xorAddress (dAddr x) targetAddr)
                                              (xorAddress (dAddr y) targetAddr)) bucket))"

text \<open>
  \<^verbatim>\<open>findNearestNode\<close> recurses as long as the bucket is empty and \<^verbatim>\<open>getNextOffset\<close>
  gives an offset. Outside the range of \<^verbatim>\<open>getMostSignificantBit\<close> the recursion need
  not end (\<open>getNextOffset 200 5 = 5\<close>), so the result is an option and \<open>None\<close> is
  the call that does not return.
\<close>

partial_function (option) findNearestNode ::
  "Node \<Rightarrow> doogleAddress \<Rightarrow> int \<Rightarrow> int \<Rightarrow> (error + NodeInfo list) option" where
  "findNearestNode n targetAddr msb offset =
     (case routingTable n (msb + offset) of
        None \<Rightarrow> Some (Inl Panic)
      | Some rb \<Rightarrow>
          if length rb = 0 then
            (case getNextOffset msb offset of
               Inl e \<Rightarrow> Some (Inr [])
             | Inr nextOffset \<Rightarrow> findNearestNode n targetAddr msb nextOffset)
          else Some (Inr (map toNodeInfo (nearestPeers targetAddr rb))))"

text \<open>
  \<^verbatim>\<open>findNode\<close>. \<^verbatim>\<open>findNearestNode\<close> never returns an error value, so the branch
  \<^verbatim>\<open>err != nil\<close> is dead; its panic goes through. \<open>NoReturn\<close> stands for a call of
  \<^verbatim>\<open>findNearestNode\<close> that does not return.
\<close>

definition findNode :: "Node \<Rightarrow> doogleAddress \<Rightarrow> error + NodeInfo list" where
  "findNode n targetAddr =
     (let msb = getMostSignificantBit (xorAddress (DAddr n) targetAddr)
      in if msb < 0 then Inl Internal
         else case findNearestNode n targetAddr msb 0 of
                None \<Rightarrow> Inl NoReturn
              | Some (Inl e) \<Rightarrow> Inl e
              | Some (Inr ret) \<Rightarrow> Inr ret)"

text \<open>
  The bucket indices that \<^verbatim>\<open>findNearestNode\<close> visits from a most significant bit in
  [0,159] when every bucket is empty: the index of the call, then the walk from the next
  offset, until \<^verbatim>\<open>getNextOffset\<close> reports out of range.
\<close>

function bucketWalk :: "int \<Rightarrow> int \<Rightarrow> int list" where
  "bucketWalk msb offset =
     (msb + offset) #
       (if 0 \<le> msb \<and> msb \<le> 159
        then (case getNextOffset msb offset of Inl e \<Rightarrow> [] | Inr nextOffset \<Rightarrow> bucketWalk msb nextOffset)
        else [])"
  by pat_completeness auto
termination
  by (relation "measure (\<lambda>(msb, offset).
        nat (2 * (\<bar>msb\<bar> + 160) - (2 * \<bar>offset\<bar> - (if offset > 0 then 1 else 0))))")
     (auto simp: getNextOffset_def Let_def split: if_splits)

declare bucketWalk.simps [simp del]

text \<open>What \<^verbatim>\<open>findNearestNode\<close> returns when it visits the buckets of a list in order.\<close>

fun scanBuckets :: "Node \<Rightarrow> doogleAddress \<Rightarrow> int list \<Rightarrow> error + NodeInfo list" where
  "scanBuckets n targetAddr [] = Inr []"
| "scanBuckets n targetAddr (i # is) =
     (case routingTable n i of
        None \<Rightarrow> Inl Panic
      | Some rb \<Rightarrow> if length rb = 0 then scanBuckets n targetAddr is
                   else Inr (map toNodeInfo (nearestPeers targetAddr rb)))"

section \<open>Storage and the RPC handlers\<close>

text \<open>
  A handler returns its reply or error together with the node after the call. Of a gRPC
  status only the code is kept. A panic or a call that does not return goes through
  unchanged where the source wraps an error into \<^verbatim>\<open>codes.Internal\<close>.
\<close>

definition wrapInternal :: "error \<Rightarrow> error" where
  "wrapInternal e = (if e = Panic \<or> e = NoReturn then e else Internal)"

record StoreItemRequest =
  Url :: string
  Title :: string
  Index :: string
  EdgeURLs :: "string list"
  Certificate :: certRef

text \<open>
  \<^verbatim>\<open>StoreItem\<close>. The type assertion on the loaded \<^verbatim>\<open>dhtValue\<close> cannot fail, since
  nothing else is stored in \<^verbatim>\<open>n.dht\<close>.
\<close>

definition StoreItem ::
  "(string \<Rightarrow> string) \<Rightarrow> Node \<Rightarrow> int \<Rightarrow> StoreItemRequest \<Rightarrow> (error + unit) \<times> Node" where
  "StoreItem sha1Sum n now req =
     (case isValidSender sha1Sum n now (Certificate req) of
        Inl e \<Rightarrow> (Inl e, n)
      | Inr (ok, n1) \<Rightarrow>
          if \<not> ok then (Inl InvalidArgument, n1)
          else
            (let es = map sha1Sum (EdgeURLs req);
                 itemAddr = sha1Sum (Url req);
                 idxAddr = sha1Sum (Index req);
                 it = \<lparr>dAddrStr = itemAddr, url = Url req, title = Title req, edges = es,
                       localRank = 0, rankComputedCount = 0\<rparr>;
                 itemAddresses = (case dht n1 idxAddr of None \<Rightarrow> [] | Some as \<Rightarrow> as);
                 included = list_ex (\<lambda>addr. addr = dAddrStr it) itemAddresses;
                 itemAddresses' =
                   (if \<not> included then itemAddresses @ [dAddrStr it] else itemAddresses);
                 n2 = n1\<lparr>dht := (dht n1)(idxAddr \<mapsto> itemAddresses')\<rparr>
             in case items n2 (dAddrStr it) of
                  Some prev \<Rightarrow>
                    (Inr (), n2\<lparr>items := (items n2)(dAddrStr it \<mapsto> it\<lparr>localRank := localRank prev\<rparr>)\<rparr>)
                | None \<Rightarrow>
                    (Inr (), n2\<lparr>items := (items n2)(dAddrStr it \<mapsto> it),
                               crawlJobs := crawlJobs n2 @ [EdgeURLs req]\<rparr>)))"

definition FindNode ::
  "(string \<Rightarrow> string) \<Rightarrow> Node \<Rightarrow> int \<Rightarrow> certRef \<Rightarrow> string \<Rightarrow> (error + NodeInfo list) \<times> Node" where
  "FindNode sha1Sum n now cert addressArg =
     (case isValidSender sha1Sum n now cert of
        Inl e \<Rightarrow> (Inl e, n)
      | Inr (ok, n1) \<Rightarrow>
          if \<not> ok then (Inl InvalidArgument, n1)
          else (case findNode n1 (toAddress addressArg) of
                  Inl e \<Rightarrow> (Inl (wrapInternal e), n1)
                | Inr ret \<Rightarrow> (Inr ret, n1)))"

datatype FindIndexReply = ReplyItems "Item list" | ReplyNodeInfos "NodeInfo list"

definition findIndex :: "Node \<Rightarrow> doogleAddressStr \<Rightarrow> error + FindIndexReply" where
  "findIndex n addrStr =
     (case dht n addrStr of
        None \<Rightarrow>
          (case findNode n (toAddress addrStr) of
             Inl e \<Rightarrow> Inl (wrapInternal e)
           | Inr infos \<Rightarrow> Inr (ReplyNodeInfos infos))
      | Some as \<Rightarrow>
          Inr (ReplyItems
                 (concat (map (\<lambda>addr. case items n addr of
                                         None \<Rightarrow> []
                                       | Some it \<Rightarrow> [\<lparr>ItemUrl = url it, ItemTitle = title it,
                                                       ItemLocalRank = localRank it\<rparr>]) as))))"

definition FindIndex ::
  "(string \<Rightarrow> string) \<Rightarrow> Node \<Rightarrow> int \<Rightarrow> certRef \<Rightarrow> string \<Rightarrow> (error + FindIndexReply) \<times> Node" where
  "FindIndex sha1Sum n now cert addressArg =
     (case isValidSender sha1Sum n now cert of
        Inl e \<Rightarrow> (Inl e, n)
      | Inr (ok, n1) \<Rightarrow>
          if \<not> ok then (Inl InvalidArgument, n1)
          else (findIndex n1 addressArg, n1))"

definition PingWithCertificate ::
  "(string \<Rightarrow> string) \<Rightarrow> Node \<Rightarrow> int \<Rightarrow> certRef \<Rightarrow> (error + NodeCertificate) \<times> Node" where
  "PingWithCertificate sha1Sum n now cert =
     (case isValidSender sha1Sum n now cert of
        Inl e \<Rightarrow> (Inl e, n)
      | Inr (ok, n1) \<Rightarrow> if ok then (Inr (certificate n1), n1) else (Inl InvalidArgument, n1))"

definition Ping :: "Node \<Rightarrow> string \<Rightarrow> (error + string) \<times> Node" where
  "Ping n message = (Inr ''pong'', n)"

text \<open>
  The peers of the node: whether \<^verbatim>\<open>grpc.Dial\<close> to a network address succeeds, and what
  the peer there answers to \<^verbatim>\<open>FindIndex\<close> (for an index address) and to
  \<^verbatim>\<open>PingWithCertificate\<close>, both called with the node's own certificate.
\<close>

record Network =
  dial :: "string \<Rightarrow> bool"
  remoteFindIndex :: "string \<Rightarrow> doogleAddressStr \<Rightarrow> error + FindIndexReply"
  remotePingWithCertificate :: "string \<Rightarrow> error + NodeCertificate"

definition PingTo ::
  "(string \<Rightarrow> string) \<Rightarrow> Network \<Rightarrow> Node \<Rightarrow> int \<Rightarrow> NodeInfo \<Rightarrow> (error + string) \<times> Node" where
  "PingTo sha1Sum net n now info =
     (if \<not> dial net (InfoNetworkAddress info) then (Inl Internal, n)
      else case remotePingWithCertificate net (InfoNetworkAddress info) of
             Inl e \<Rightarrow> (Inl Internal, n)
           | Inr r \<Rightarrow>
               (case isValidSender sha1Sum n now (OtherCert r) of
                  Inl e \<Rightarrow> (Inl e, n)
                | Inr (ok, n1) \<Rightarrow> if ok then (Inr ''pong'', n1) else (Inl Internal, n1)))"

definition getConnByNetworkAddress :: "Network \<Rightarrow> Node \<Rightarrow> string \<Rightarrow> error + Node" where
  "getConnByNetworkAddress net n networkAddr =
     (if networkAddr \<in> set (nAddrToConn n) then Inr n
      else if dial net networkAddr then Inr (n\<lparr>nAddrToConn := nAddrToConn n @ [networkAddr]\<rparr>)
      else Inl Internal)"

section \<open>Query\<close>

text \<open>The entries of \<^verbatim>\<open>scoreMap\<close> (the fields \<^verbatim>\<open>num\<close>, \<^verbatim>\<open>sum\<close>, \<^verbatim>\<open>avg\<close>).\<close>

record score =
  scoreNum :: int
  scoreSum :: real
  scoreAvg :: real

text \<open>One item merged into the result list \<^verbatim>\<open>ret\<close> and \<^verbatim>\<open>scoreMap\<close>.\<close>

definition mergeItem ::
  "Item list \<times> (string \<rightharpoonup> score) \<Rightarrow> Item \<Rightarrow> Item list \<times> (string \<rightharpoonup> score)" where
  "mergeItem acc it =
     (case snd acc (ItemUrl it) of
        Some v \<Rightarrow>
          (fst acc, (snd acc)(ItemUrl it \<mapsto>
                       v\<lparr>scoreNum := scoreNum v + 1, scoreSum := scoreSum v + ItemLocalRank it\<rparr>))
      | None \<Rightarrow>
          (fst acc @ [it],
           (snd acc)(ItemUrl it \<mapsto> \<lparr>scoreNum = 1, scoreSum = ItemLocalRank it, scoreAvg = 0\<rparr>)))"

text \<open>
  The peers suggested by a remote node are pinged and their certificates checked. The
  loop returns at the first failure.
\<close>

fun warmup ::
  "(string \<Rightarrow> string) \<Rightarrow> Network \<Rightarrow> int \<Rightarrow> Node \<Rightarrow> NodeInfo list \<Rightarrow> error + Node" where
  "warmup sha1Sum net now n [] = Inr n"
| "warmup sha1Sum net now n (ni # infos) =
     (case getConnByNetworkAddress net n (InfoNetworkAddress ni) of
        Inl e \<Rightarrow> Inr n
      | Inr n1 \<Rightarrow>
          (case remotePingWithCertificate net (InfoNetworkAddress ni) of
             Inl e \<Rightarrow> Inr n1
           | Inr res \<Rightarrow>
               (case isValidSender sha1Sum n1 now (OtherCert res) of
                  Inl e \<Rightarrow> Inl e
                | Inr (ok, n2) \<Rightarrow> warmup sha1Sum net now n2 infos)))"

text \<open>
  The fan-out of \<^verbatim>\<open>GetIndex\<close>. The goroutines share \<^verbatim>\<open>ret\<close> and \<^verbatim>\<open>scoreMap\<close> under
  one mutex; the model is the schedule in which they run one after the other, in the
  order of the peers, each on its own peer.
\<close>

fun fanOut ::
  "(string \<Rightarrow> string) \<Rightarrow> Network \<Rightarrow> int \<Rightarrow> doogleAddressStr
     \<Rightarrow> (Item list \<times> (string \<rightharpoonup> score)) \<times> Node \<Rightarrow> string list
     \<Rightarrow> error + (Item list \<times> (string \<rightharpoonup> score)) \<times> Node" where
  "fanOut sha1Sum net now target st [] = Inr st"
| "fanOut sha1Sum net now target st (networkAddr # nas) =
     (case getConnByNetworkAddress net (snd st) networkAddr of
        Inl e \<Rightarrow> fanOut sha1Sum net now target st nas
      | Inr n1 \<Rightarrow>
          (case remoteFindIndex net networkAddr target of
             Inl e \<Rightarrow> fanOut sha1Sum net now target (fst st, n1) nas
           | Inr (ReplyItems its) \<Rightarrow>
               fanOut sha1Sum net now target (foldl mergeItem (fst st) its, n1) nas
           | Inr (ReplyNodeInfos infos) \<Rightarrow>
               (case warmup sha1Sum net now n1 infos of
                  Inl e \<Rightarrow> Inl e
                | Inr n2 \<Rightarrow> fanOut sha1Sum net now target (fst st, n2) nas)))"

text \<open>
  After the fan-out every entry of \<^verbatim>\<open>scoreMap\<close> gets its average; the final sort
  reads it. Every url of \<^verbatim>\<open>ret\<close> has an entry, so the default of \<open>avgOf\<close> is
  never taken.
\<close>

definition setAverages :: "(string \<rightharpoonup> score) \<Rightarrow> (string \<rightharpoonup> score)" where
  "setAverages scoreMap =
     (\<lambda>u. map_option (\<lambda>v. v\<lparr>scoreAvg := scoreSum v / real_of_int (scoreNum v)\<rparr>) (scoreMap u))"

definition avgOf :: "(string \<rightharpoonup> score) \<Rightarrow> string \<Rightarrow> real" where
  "avgOf scoreMap u = (case scoreMap u of None \<Rightarrow> 0 | Some v \<Rightarrow> scoreAvg v)"

text \<open>
  \<^verbatim>\<open>GetIndex\<close>. The send on the PageRank channel drops the address when the channel
  is full. \<^verbatim>\<open>ret\<close> is made with length 0 and capacity \<^verbatim>\<open>maxNumGetItem\<close>; every
  \<^verbatim>\<open>append\<close> extends it, and nothing cuts it before it is returned.
\<close>

definition GetIndex ::
  "(string \<Rightarrow> string) \<Rightarrow> Network \<Rightarrow> Node \<Rightarrow> int \<Rightarrow> string \<Rightarrow> (error + Item list) \<times> Node" where
  "GetIndex sha1Sum net n now message =
     (let targetAddrStr = sha1Sum message;
          n0 = (if length (pageRankComputingQueue n) < queueCap n
                then n\<lparr>pageRankComputingQueue := pageRankComputingQueue n @ [targetAddrStr]\<rparr>
                else n)
      in case findIndex n0 targetAddrStr of
           Inl e \<Rightarrow> (Inl (wrapInternal e), n0)
         | Inr res \<Rightarrow>
             (case (case res of
                      ReplyItems its \<Rightarrow>
                        (case findNode n0 (toAddress targetAddrStr) of
                           Inl e \<Rightarrow> Inl (wrapInternal e)
                         | Inr infos \<Rightarrow>
                             Inr (foldl mergeItem ([], Map.empty) its,
                                  map InfoNetworkAddress infos))
                    | ReplyNodeInfos infos \<Rightarrow>
                        Inr (([], Map.empty), map InfoNetworkAddress infos)) of
                Inl e \<Rightarrow> (Inl e, n0)
              | Inr (acc, nas) \<Rightarrow>
                  (case fanOut sha1Sum net now targetAddrStr (acc, n0) nas of
                     Inl e \<Rightarrow> (Inl e, n0)
                   | Inr ((ret, scoreMap), n1) \<Rightarrow>
                       (let averaged = setAverages scoreMap
                        in (Inr (sortSlice (\<lambda>a b. avgOf averaged (ItemUrl a)
                                                   > avgOf averaged (ItemUrl b)) ret), n1)))))"

text \<open>
  \<^verbatim>\<open>NewNode\<close>. The generated key pair and the solved puzzle (address and nonce) are
  arguments; the difficulty is taken to fit \<^verbatim>\<open>int32\<close>.
\<close>

definition NewNode ::
  "int \<Rightarrow> string \<Rightarrow> string \<Rightarrow> string \<Rightarrow> doogleAddress \<Rightarrow> string \<Rightarrow> nat \<Rightarrow> Node" where
  "NewNode dif networkAddr pk sk da nnc qcap =
     \<lparr>DAddr = da,
      routingTable = (\<lambda>i. if 0 \<le> i \<and> i < int addressBits then Some [] else None),
      dht = Map.empty, items = Map.empty,
      publicKey = pk, secretKey = sk, nonce = nnc, difficulty = dif,
      certificate = \<lparr>NetworkAddress = networkAddr, DoogleAddress = addressBytes da,
                     PublicKey = pk, Nonce = nnc, Difficulty = dif\<rparr>,
      crawlJobs = [], nAddrToConn = [], pageRankComputingQueue = [], queueCap = qcap\<rparr>"

text \<open>Every bucket index in [0,159] has a bucket.\<close>

definition tableComplete :: "Node \<Rightarrow> bool" where
  "tableComplete n = list_all (\<lambda>i. routingTable n i \<noteq> None) [0..159]"

text \<open>
  The indices still to visit from an offset whose index lies in [0,159]: the index itself,
  the indices below the band already covered and the indices above it.
\<close>

definition walkSet :: "int \<Rightarrow> int \<Rightarrow> int set" where
  "walkSet msb off =
     (if 0 < off then {i. 0 \<le> i \<and> i \<le> 159 \<and> (i \<le> msb - off \<or> msb + off \<le> i)}
      else {i. 0 \<le> i \<and> i \<le> 159 \<and> (i \<le> msb + off \<or> msb - off + 1 \<le> i)})"

section \<open>Example data\<close>

text \<open>A node with address 0 and empty buckets, and a peer at a given address.\<close>

definition exampleNode :: Node where
  "exampleNode = NewNode 0 ''a'' [] [] 0 [] 0"

definition examplePeer :: "doogleAddress \<Rightarrow> nodeInfo" where
  "examplePeer a = \<lparr>dAddr = a, nAddr = ''p'', accessedAt = 0\<rparr>"

text \<open>The example node with four peers in bucket 2.\<close>

definition exampleNode4 :: Node where
  "exampleNode4 =
     exampleNode\<lparr>routingTable := (routingTable exampleNode)
        (2 \<mapsto> [examplePeer 7, examplePeer 6, examplePeer 5, examplePeer 4])\<rparr>"

text \<open>The example node with bucket 5 full: twenty peers, the oldest first.\<close>

definition exampleBucket20 :: "nodeInfo list" where
  "exampleBucket20 =
     map examplePeer [32, 33, 34, 35, 36, 37, 38, 39, 40, 41,
                      42, 43, 44, 45, 46, 47, 48, 49, 50, 51]"

definition exampleNodeFull :: Node where
  "exampleNodeFull =
     exampleNode\<lparr>routingTable := (routingTable exampleNode)(5 \<mapsto> exampleBucket20)\<rparr>"

text \<open>
  A request of the node to itself, and the example node holding an item for the url of
  the request with local rank 7.
\<close>

definition exampleRequest :: StoreItemRequest where
  "exampleRequest =
     \<lparr>Url = ''u'', Title = ''t'', Index = ''k'', EdgeURLs = [''e''], Certificate = OwnCert\<rparr>"

definition exampleNodeItem :: Node where
  "exampleNodeItem =
     exampleNode\<lparr>items := [sha1 ''u'' \<mapsto> \<lparr>dAddrStr = sha1 ''u'', url = ''u'', title = ''old'',
                                           edges = [], localRank = 7, rankComputedCount = 2\<rparr>]\<rparr>"

text \<open>
  The SHA-1 digest of the network address \<^verbatim>\<open>h:102\<close>: its first bit is zero, its
  second bit is set and its last byte is zero. A certificate for that network address
  with empty key and nonce whose address is the digest, and one whose address is only the
  first nineteen bytes of the digest.
\<close>

definition exampleDigest :: string where
  "exampleDigest =
     [CHR 0x49, CHR 0x71, CHR 0x1c, CHR 0x74, CHR 0x1c, CHR 0xdd, CHR 0x9f, CHR 0x4d,
      CHR 0x81, CHR 0x72, CHR 0xcf, CHR 0xcd, CHR 0xff, CHR 0xc6, CHR 0x3c, CHR 0xfe,
      CHR 0x3d, CHR 0xc1, CHR 0x47, CHR 0x00]"

definition exampleCert :: NodeCertificate where
  "exampleCert =
     \<lparr>NetworkAddress = ''h:102'', DoogleAddress = exampleDigest, PublicKey = [], Nonce = [],
      Difficulty = 0\<rparr>"

definition exampleShortCert :: NodeCertificate where
  "exampleShortCert =
     \<lparr>NetworkAddress = ''h:102'', DoogleAddress = take 19 exampleDigest, PublicKey = [],
      Nonce = [], Difficulty = 0\<rparr>"

text \<open>The example node after it has admitted the peer of \<open>exampleCert\<close> at time 0.\<close>

definition exampleNodePeer :: Node where
  "exampleNodePeer =
     exampleNode\<lparr>routingTable := (routingTable exampleNode)
        (158 \<mapsto> [\<lparr>dAddr = toAddress exampleDigest, nAddr = ''h:102'', accessedAt = 0\<rparr>])\<rparr>"

text \<open>
  Twenty-one items with pairwise different urls and rank 0. Peers that accept every dial,
  answer every \<^verbatim>\<open>FindIndex\<close> with these items and every \<^verbatim>\<open>PingWithCertificate\<close> with
  the certificate of the short address.
\<close>

definition exampleItems :: "Item list" where
  "exampleItems =
     map (\<lambda>u. \<lparr>ItemUrl = u, ItemTitle = ''t'', ItemLocalRank = 0\<rparr>)
       [''u01'', ''u02'', ''u03'', ''u04'', ''u05'', ''u06'', ''u07'', ''u08'', ''u09'', ''u10'',
        ''u11'', ''u12'', ''u13'', ''u14'', ''u15'', ''u16'', ''u17'', ''u18'', ''u19'', ''u20'',
        ''u21'']"

definition exampleNetwork :: Network where
  "exampleNetwork =
     \<lparr>dial = (\<lambda>a. True), remoteFindIndex = (\<lambda>a t. Inr (ReplyItems exampleItems)),
      remotePingWithCertificate = (\<lambda>a. Inr exampleShortCert)\<rparr>"

text \<open>
  The vectors of \<^verbatim>\<open>TestVerifyAddress\<close>: the address that the test expects to verify
  for host \<^verbatim>\<open>ab\<close>, port \<^verbatim>\<open>80\<close> and public key \<^verbatim>\<open>pk\<close>, and the nonces of
  difficulty 1 and 2. The SHA-1 digests of host, port, public key and each nonce.
\<close>

definition testAddress :: string where
  "testAddress =
     [CHR 0x89, CHR 0xf7, CHR 0xfc, CHR 0x4a, CHR 0x65, CHR 0xe8, CHR 0x31, CHR 0xc1,
      CHR 0x7a, CHR 0xed, CHR 0x7b, CHR 0x54, CHR 0xc7, CHR 0x5e, CHR 0x4e, CHR 0xb0,
      CHR 0x5c, CHR 0x68, CHR 0x45, CHR 0xfd]"


definition testNonce2 :: string where
  "testNonce2 =
     [CHR 0xac, CHR 0xab, CHR 0xfe, CHR 0x62, CHR 0xab, CHR 0x06, CHR 0xa9, CHR 0xba,
      CHR 0x69, CHR 0x91]"


definition testDigest2 :: string where
  "testDigest2 =
     [CHR 0x3c, CHR 0xfa, CHR 0x71, CHR 0x05, CHR 0xcb, CHR 0x4e, CHR 0x8f, CHR 0x0b,
      CHR 0x3d, CHR 0xb1, CHR 0x19, CHR 0xb6, CHR 0xfc, CHR 0x2a, CHR 0x9b, CHR 0x0c,
      CHR 0xa0, CHR 0x8b, CHR 0x5e, CHR 0xa6]"

section \<open>The hash function on the examples\<close>

text \<open>
  The digests are computed stage by stage: padding, the sixteen words of the block, the
  message schedule, the eighty rounds, the sum with the initial state. The first is the
  test vector of the standard.
\<close>

lemma replicate_numeral_step: "replicate (numeral k) x = x # replicate (pred_numeral k) x"
  by (simp add: numeral_eq_Suc)

lemma chunks_numeral_step:
  "chunks (numeral n) k xs = take k xs # chunks (pred_numeral n) k (drop k xs)"
  "chunks 1 k xs = [take k xs]"
  by (simp_all add: numeral_eq_Suc)

lemma expand_numeral_step:
  "expand (numeral k) rw =
     expand (pred_numeral k) (rotl32 1 (rw ! 2 XOR rw ! 7 XOR rw ! 13 XOR rw ! 15) # rw)"
  by (simp add: numeral_eq_Suc)

lemma sha1_abc_pad:
  "sha1Pad ''abc'' =
     [CHR 0x61, CHR 0x62, CHR 0x63, CHR 0x80, CHR 0x00, CHR 0x00, CHR 0x00, CHR 0x00,
      CHR 0x00, CHR 0x00, CHR 0x00, CHR 0x00, CHR 0x00, CHR 0x00, CHR 0x00, CHR 0x00,
      CHR 0x00, CHR 0x00, CHR 0x00, CHR 0x00, CHR 0x00, CHR 0x00, CHR 0x00, CHR 0x00,
      CHR 0x00, CHR 0x00, CHR 0x00, CHR 0x00, CHR 0x00, CHR 0x00, CHR 0x00, CHR 0x00,
      CHR 0x00, CHR 0x00, CHR 0x00, CHR 0x00, CHR 0x00, CHR 0x00, CHR 0x00, CHR 0x00,
      CHR 0x00, CHR 0x00, CHR 0x00, CHR 0x00, CHR 0x00, CHR 0x00, CHR 0x00, CHR 0x00,
      CHR 0x00, CHR 0x00, CHR 0x00, CHR 0x00, CHR 0x00, CHR 0x00, CHR 0x00, CHR 0x00,
      CHR 0x00, CHR 0x00, CHR 0x00, CHR 0x00, CHR 0x00, CHR 0x00, CHR 0x00, CHR 0x18]"
  by (simp add: sha1Pad_def char_of_def replicate_numeral_step bit_Suc_0_iff)

lemma sha1_abc_words:
  "map be32 (chunks 16 4
     [CHR 0x61, CHR 0x62, CHR 0x63, CHR 0x80, CHR 0x00, CHR 0x00, CHR 0x00, CHR 0x00,
      CHR 0x00, CHR 0x00, CHR 0x00, CHR 0x00, CHR 0x00, CHR 0x00, CHR 0x00, CHR 0x00,
      CHR 0x00, CHR 0x00, CHR 0x00, CHR 0x00, CHR 0x00, CHR 0x00, CHR 0x00, CHR 0x00,
      CHR 0x00, CHR 0x00, CHR 0x00, CHR 0x00, CHR 0x00, CHR 0x00, CHR 0x00, CHR 0x00,
      CHR 0x00, CHR 0x00, CHR 0x00, CHR 0x00, CHR 0x00, CHR 0x00, CHR 0x00, CHR 0x00,
      CHR 0x00, CHR 0x00, CHR 0x00, CHR 0x00, CHR 0x00, CHR 0x00, CHR 0x00, CHR 0x00,
      CHR 0x00, CHR 0x00, CHR 0x00, CHR 0x00, CHR 0x00, CHR 0x00, CHR 0x00, CHR 0x00,
      CHR 0x00, CHR 0x00, CHR 0x00, CHR 0x00, CHR 0x00, CHR 0x00, CHR 0x00, CHR 0x18]) =
     [0x61626380, 0x00000000, 0x00000000, 0x00000000, 0x00000000, 0x00000000,
      0x00000000, 0x00000000, 0x00000000, 0x00000000, 0x00000000, 0x00000000,
      0x00000000, 0x00000000, 0x00000000, 0x00000018]"
  by (simp add: chunks_numeral_step be32_def)

lemma sha1_abc_schedule:
  "expand 64 (rev
     [0x61626380, 0x00000000, 0x00000000, 0x00000000, 0x00000000, 0x00000000,
      0x00000000, 0x00000000, 0x00000000, 0x00000000, 0x00000000, 0x00000000,
      0x00000000, 0x00000000, 0x00000000, 0x00000018]) =
   rev
     [0x61626380, 0x00000000, 0x00000000, 0x00000000, 0x00000000, 0x00000000,
      0x00000000, 0x00000000, 0x00000000, 0x00000000, 0x00000000, 0x00000000,
      0x00000000, 0x00000000, 0x00000000, 0x00000018, 0xc2c4c700, 0x00000000,
      0x00000030, 0x85898e01, 0x00000000, 0x00000060, 0x0b131c03, 0x00000030,
      0x85898ec1, 0x16263806, 0x00000000, 0x00000180, 0x2c4c700c, 0x000000f0,
      0x93afb507, 0x5898e048, 0x8e9a9202, 0x00000600, 0xb131c0f0, 0x16263bc6,
      0x4ebed41e, 0x626380a1, 0x16263806, 0x000018c0, 0xd2e138c4, 0x00000f00,
      0x3afb5079, 0x898e04e5, 0xe2ba3c2b, 0x000060c0, 0x053a37cd, 0x74458547,
      0xda9415ed, 0x26380a16, 0x626383a1, 0x4ebf54de, 0x3835b44b, 0x0000f600,
      0x1e84c7a3, 0x98e04d98, 0x651d16a0, 0x62658ca1, 0x458544d6, 0x44584cb7,
      0x7ba06619, 0x6380aea2, 0x0ae55269, 0x627b49a1, 0x7cd45c9d, 0x000f0000,
      0xfb50753a, 0xec6765e8, 0xba3c2be2, 0x0060c000, 0x3a37cd05, 0x458546f4,
      0xb8599dd6, 0x380a1a26, 0x01e02203, 0xe7cc3456, 0xe6e60b69, 0x00f60a00,
      0x5795ef4f, 0x822e0879]"
  by (simp add: expand_numeral_step rotl32_def)

lemma sha1_abc_rounds:
  "sha1Rounds 0 (0x67452301, 0xEFCDAB89, 0x98BADCFE, 0x10325476, 0xC3D2E1F0)
     [0x61626380, 0x00000000, 0x00000000, 0x00000000, 0x00000000, 0x00000000,
      0x00000000, 0x00000000, 0x00000000, 0x00000000, 0x00000000, 0x00000000,
      0x00000000, 0x00000000, 0x00000000, 0x00000018, 0xc2c4c700, 0x00000000,
      0x00000030, 0x85898e01, 0x00000000, 0x00000060, 0x0b131c03, 0x00000030,
      0x85898ec1, 0x16263806, 0x00000000, 0x00000180, 0x2c4c700c, 0x000000f0,
      0x93afb507, 0x5898e048, 0x8e9a9202, 0x00000600, 0xb131c0f0, 0x16263bc6,
      0x4ebed41e, 0x626380a1, 0x16263806, 0x000018c0, 0xd2e138c4, 0x00000f00,
      0x3afb5079, 0x898e04e5, 0xe2ba3c2b, 0x000060c0, 0x053a37cd, 0x74458547,
      0xda9415ed, 0x26380a16, 0x626383a1, 0x4ebf54de, 0x3835b44b, 0x0000f600,
      0x1e84c7a3, 0x98e04d98, 0x651d16a0, 0x62658ca1, 0x458544d6, 0x44584cb7,
      0x7ba06619, 0x6380aea2, 0x0ae55269, 0x627b49a1, 0x7cd45c9d, 0x000f0000,
      0xfb50753a, 0xec6765e8, 0xba3c2be2, 0x0060c000, 0x3a37cd05, 0x458546f4,
      0xb8599dd6, 0x380a1a26, 0x01e02203, 0xe7cc3456, 0xe6e60b69, 0x00f60a00,
      0x5795ef4f, 0x822e0879] =
   (0x42541b35, 0x5738d5e1, 0x21834873, 0x681e6df6, 0xd8fdf6ad)"
  by (simp add: rotl32_def)

lemma sha1_abc_block:
  "sha1Block (0x67452301, 0xEFCDAB89, 0x98BADCFE, 0x10325476, 0xC3D2E1F0)
     [CHR 0x61, CHR 0x62, CHR 0x63, CHR 0x80, CHR 0x00, CHR 0x00, CHR 0x00, CHR 0x00,
      CHR 0x00, CHR 0x00, CHR 0x00, CHR 0x00, CHR 0x00, CHR 0x00, CHR 0x00, CHR 0x00,
      CHR 0x00, CHR 0x00, CHR 0x00, CHR 0x00, CHR 0x00, CHR 0x00, CHR 0x00, CHR 0x00,
      CHR 0x00, CHR 0x00, CHR 0x00, CHR 0x00, CHR 0x00, CHR 0x00, CHR 0x00, CHR 0x00,
      CHR 0x00, CHR 0x00, CHR 0x00, CHR 0x00, CHR 0x00, CHR 0x00, CHR 0x00, CHR 0x00,
      CHR 0x00, CHR 0x00, CHR 0x00, CHR 0x00, CHR 0x00, CHR 0x00, CHR 0x00, CHR 0x00,
      CHR 0x00, CHR 0x00, CHR 0x00, CHR 0x00, CHR 0x00, CHR 0x00, CHR 0x00, CHR 0x00,
      CHR 0x00, CHR 0x00, CHR 0x00, CHR 0x00, CHR 0x00, CHR 0x00, CHR 0x00, CHR 0x18] =
   (0xa9993e36, 0x4706816a, 0xba3e2571, 0x7850c26c, 0x9cd0d89d)"
  unfolding sha1Block.simps sha1_abc_words sha1_abc_schedule rev_rev_ident sha1_abc_rounds
  by simp

lemma sha1_abc_digest:
  "sha1 ''abc'' =
     [CHR 0xa9, CHR 0x99, CHR 0x3e, CHR 0x36, CHR 0x47, CHR 0x06, CHR 0x81, CHR 0x6a,
      CHR 0xba, CHR 0x3e, CHR 0x25, CHR 0x71, CHR 0x78, CHR 0x50, CHR 0xc2, CHR 0x6c,
      CHR 0x9c, CHR 0xd0, CHR 0xd8, CHR 0x9d]"
  unfolding sha1_def sha1_abc_pad
  by (simp add: chunks_numeral_step sha1_abc_block wordBytes_def char_of_def bit_Suc_0_iff)

lemma sha1_h102_pad:
  "sha1Pad ''h:102'' =
     [CHR 0x68, CHR 0x3a, CHR 0x31, CHR 0x30, CHR 0x32, CHR 0x80, CHR 0x00, CHR 0x00,
      CHR 0x00, CHR 0x00, CHR 0x00, CHR 0x00, CHR 0x00, CHR 0x00, CHR 0x00, CHR 0x00,
      CHR 0x00, CHR 0x00, CHR 0x00, CHR 0x00, CHR 0x00, CHR 0x00, CHR 0x00, CHR 0x00,
      CHR 0x00, CHR 0x00, CHR 0x00, CHR 0x00, CHR 0x00, CHR 0x00, CHR 0x00, CHR 0x00,
      CHR 0x00, CHR 0x00, CHR 0x00, CHR 0x00, CHR 0x00, CHR 0x00, CHR 0x00, CHR 0x00,
      CHR 0x00, CHR 0x00, CHR 0x00, CHR 0x00, CHR 0x00, CHR 0x00, CHR 0x00, CHR 0x00,
      CHR 0x00, CHR 0x00, CHR 0x00, CHR 0x00, CHR 0x00, CHR 0x00, CHR 0x00, CHR 0x00,
      CHR 0x00, CHR 0x00, CHR 0x00, CHR 0x00, CHR 0x00, CHR 0x00, CHR 0x00, CHR 0x28]"
  by (simp add: sha1Pad_def char_of_def replicate_numeral_step bit_Suc_0_iff)

lemma sha1_h102_words:
  "map be32 (chunks 16 4
     [CHR 0x68, CHR 0x3a, CHR 0x31, CHR 0x30, CHR 0x32, CHR 0x80, CHR 0x00, CHR 0x00,
      CHR 0x00, CHR 0x00, CHR 0x00, CHR 0x00, CHR 0x00, CHR 0x00, CHR 0x00, CHR 0x00,
      CHR 0x00, CHR 0x00, CHR 0x00, CHR 0x00, CHR 0x00, CHR 0x00, CHR 0x00, CHR 0x00,
      CHR 0x00, CHR 0x00, CHR 0x00, CHR 0x00, CHR 0x00, CHR 0x00, CHR 0x00, CHR 0x00,
      CHR 0x00, CHR 0x00, CHR 0x00, CHR 0x00, CHR 0x00, CHR 0x00, CHR 0x00, CHR 0x00,
      CHR 0x00, CHR 0x00, CHR 0x00, CHR 0x00, CHR 0x00, CHR 0x00, CHR 0x00, CHR 0x00,
      CHR 0x00, CHR 0x00, CHR 0x00, CHR 0x00, CHR 0x00, CHR 0x00, CHR 0x00, CHR 0x00,
      CHR 0x00, CHR 0x00, CHR 0x00, CHR 0x00, CHR 0x00, CHR 0x00, CHR 0x00, CHR 0x28]) =
     [0x683a3130, 0x32800000, 0x00000000, 0x00000000, 0x00000000, 0x00000000,
      0x00000000, 0x00000000, 0x00000000, 0x00000000, 0x00000000, 0x00000000,
      0x00000000, 0x00000000, 0x00000000, 0x00000028]"
  by (simp add: chunks_numeral_step be32_def)

lemma sha1_h102_schedule:
  "expand 64 (rev
     [0x683a3130, 0x32800000, 0x00000000, 0x00000000, 0x00000000, 0x00000000,
      0x00000000, 0x00000000, 0x00000000, 0x00000000, 0x00000000, 0x00000000,
      0x00000000, 0x00000000, 0x00000000, 0x00000028]) =
   rev
     [0x683a3130, 0x32800000, 0x00000000, 0x00000000, 0x00000000, 0x00000000,
      0x00000000, 0x00000000, 0x00000000, 0x00000000, 0x00000000, 0x00000000,
      0x00000000, 0x00000000, 0x00000000, 0x00000028, 0xd0746260, 0x65000000,
      0x00000050, 0xa0e8c4c1, 0xca000000, 0x000000a0, 0x41d18983, 0x94000051,
      0xa0e8c581, 0x49a31306, 0x28000003, 0x00000280, 0x0746260d, 0x50000116,
      0x234bd2c7, 0xec8c4ce9, 0x41394d4e, 0x5e000a01, 0x1d189974, 0xc3a3175f,
      0xa52f4b1f, 0xb2313127, 0x03a31334, 0x28002943, 0xf7c173d6, 0x28001166,
      0x34bd2c72, 0xc8c4ce3e, 0x52455d67, 0x7400a154, 0x522a8507, 0x91926599,
      0xbfc00d71, 0xcf13127f, 0x3a313700, 0x0d2dca6e, 0x77b42e66, 0xa8011c61,
      0x56ca5f17, 0xcc4ce7b5, 0xa97a9d69, 0xf23b2460, 0x210b4341, 0x312670da,
      0x0bc1a4cd, 0xd93137da, 0x140d4f77, 0x3218693d, 0xeb752185, 0x4811660c,
      0xbd2c6634, 0xfeff0ea0, 0xc55d6760, 0x00a15474, 0x2a850752, 0x92659b11,
      0xc74b57b2, 0x43126bc9, 0x0b063552, 0xa3463c25, 0x3307ce27, 0xc11c7f83,
      0xed76ab0a, 0xb6d6b40f]"
  by (simp add: expand_numeral_step rotl32_def)

lemma sha1_h102_rounds:
  "sha1Rounds 0 (0x67452301, 0xEFCDAB89, 0x98BADCFE, 0x10325476, 0xC3D2E1F0)
     [0x683a3130, 0x32800000, 0x00000000, 0x00000000, 0x00000000, 0x00000000,
      0x00000000, 0x00000000, 0x00000000, 0x00000000, 0x00000000, 0x00000000,
      0x00000000, 0x00000000, 0x00000000, 0x00000028, 0xd0746260, 0x65000000,
      0x00000050, 0xa0e8c4c1, 0xca000000, 0x000000a0, 0x41d18983, 0x94000051,
      0xa0e8c581, 0x49a31306, 0x28000003, 0x00000280, 0x0746260d, 0x50000116,
      0x234bd2c7, 0xec8c4ce9, 0x41394d4e, 0x5e000a01, 0x1d189974, 0xc3a3175f,
      0xa52f4b1f, 0xb2313127, 0x03a31334, 0x28002943, 0xf7c173d6, 0x28001166,
      0x34bd2c72, 0xc8c4ce3e, 0x52455d67, 0x7400a154, 0x522a8507, 0x91926599,
      0xbfc00d71, 0xcf13127f, 0x3a313700, 0x0d2dca6e, 0x77b42e66, 0xa8011c61,
      0x56ca5f17, 0xcc4ce7b5, 0xa97a9d69, 0xf23b2460, 0x210b4341, 0x312670da,
      0x0bc1a4cd, 0xd93137da, 0x140d4f77, 0x3218693d, 0xeb752185, 0x4811660c,
      0xbd2c6634, 0xfeff0ea0, 0xc55d6760, 0x00a15474, 0x2a850752, 0x92659b11,
      0xc74b57b2, 0x43126bc9, 0x0b063552, 0xa3463c25, 0x3307ce27, 0xc11c7f83,
      0xed76ab0a, 0xb6d6b40f] =
   (0xe22bf973, 0x2d0ff3c4, 0xe8b7f2cf, 0xef93e888, 0x79ee6510)"
  by (simp add: rotl32_def)

lemma sha1_h102_block:
  "sha1Block (0x67452301, 0xEFCDAB89, 0x98BADCFE, 0x10325476, 0xC3D2E1F0)
     [CHR 0x68, CHR 0x3a, CHR 0x31, CHR 0x30, CHR 0x32, CHR 0x80, CHR 0x00, CHR 0x00,
      CHR 0x00, CHR 0x00, CHR 0x00, CHR 0x00, CHR 0x00, CHR 0x00, CHR 0x00, CHR 0x00,
      CHR 0x00, CHR 0x00, CHR 0x00, CHR 0x00, CHR 0x00, CHR 0x00, CHR 0x00, CHR 0x00,
      CHR 0x00, CHR 0x00, CHR 0x00, CHR 0x00, CHR 0x00, CHR 0x00, CHR 0x00, CHR 0x00,
      CHR 0x00, CHR 0x00, CHR 0x00, CHR 0x00, CHR 0x00, CHR 0x00, CHR 0x00, CHR 0x00,
      CHR 0x00, CHR 0x00, CHR 0x00, CHR 0x00, CHR 0x00, CHR 0x00, CHR 0x00, CHR 0x00,
      CHR 0x00, CHR 0x00, CHR 0x00, CHR 0x00, CHR 0x00, CHR 0x00, CHR 0x00, CHR 0x00,
      CHR 0x00, CHR 0x00, CHR 0x00, CHR 0x00, CHR 0x00, CHR 0x00, CHR 0x00, CHR 0x28] =
   (0x49711c74, 0x1cdd9f4d, 0x8172cfcd, 0xffc63cfe, 0x3dc14700)"
  unfolding sha1Block.simps sha1_h102_words sha1_h102_schedule rev_rev_ident sha1_h102_rounds
  by simp

lemma sha1_h102_digest:
  "sha1 ''h:102'' =
     [CHR 0x49, CHR 0x71, CHR 0x1c, CHR 0x74, CHR 0x1c, CHR 0xdd, CHR 0x9f, CHR 0x4d,
      CHR 0x81, CHR 0x72, CHR 0xcf, CHR 0xcd, CHR 0xff, CHR 0xc6, CHR 0x3c, CHR 0xfe,
      CHR 0x3d, CHR 0xc1, CHR 0x47, CHR 0x00]"
  unfolding sha1_def sha1_h102_pad
  by (simp add: chunks_numeral_step sha1_h102_block wordBytes_def char_of_def bit_Suc_0_iff)

lemma sha1_empty_pad:
  "sha1Pad [] =
     [CHR 0x80, CHR 0x00, CHR 0x00, CHR 0x00, CHR 0x00, CHR 0x00, CHR 0x00, CHR 0x00,
      CHR 0x00, CHR 0x00, CHR 0x00, CHR 0x00, CHR 0x00, CHR 0x00, CHR 0x00, CHR 0x00,
      CHR 0x00, CHR 0x00, CHR 0x00, CHR 0x00, CHR 0x00, CHR 0x00, CHR 0x00, CHR 0x00,
      CHR 0x00, CHR 0x00, CHR 0x00, CHR 0x00, CHR 0x00, CHR 0x00, CHR 0x00, CHR 0x00,
      CHR 0x00, CHR 0x00, CHR 0x00, CHR 0x00, CHR 0x00, CHR 0x00, CHR 0x00, CHR 0x00,
      CHR 0x00, CHR 0x00, CHR 0x00, CHR 0x00, CHR 0x00, CHR 0x00, CHR 0x00, CHR 0x00,
      CHR 0x00, CHR 0x00, CHR 0x00, CHR 0x00, CHR 0x00, CHR 0x00, CHR 0x00, CHR 0x00,
      CHR 0x00, CHR 0x00, CHR 0x00, CHR 0x00, CHR 0x00, CHR 0x00, CHR 0x00, CHR 0x00]"
  by (simp add: sha1Pad_def char_of_def replicate_numeral_step bit_Suc_0_iff)

lemma sha1_empty_words:
  "map be32 (chunks 16 4
     [CHR 0x80, CHR 0x00, CHR 0x00, CHR 0x00, CHR 0x00, CHR 0x00, CHR 0x00, CHR 0x00,
      CHR 0x00, CHR 0x00, CHR 0x00, CHR 0x00, CHR 0x00, CHR 0x00, CHR 0x00, CHR 0x00,
      CHR 0x00, CHR 0x00, CHR 0x00, CHR 0x00, CHR 0x00, CHR 0x00, CHR 0x00, CHR 0x00,
      CHR 0x00, CHR 0x00, CHR 0x00, CHR 0x00, CHR 0x00, CHR 0x00, CHR 0x00, CHR 0x00,
      CHR 0x00, CHR 0x00, CHR 0x00, CHR 0x00, CHR 0x00, CHR 0x00, CHR 0x00, CHR 0x00,
      CHR 0x00, CHR 0x00, CHR 0x00, CHR 0x00, CHR 0x00, CHR 0x00, CHR 0x00, CHR 0x00,
      CHR 0x00, CHR 0x00, CHR 0x00, CHR 0x00, CHR 0x00, CHR 0x00, CHR 0x00, CHR 0x00,
      CHR 0x00, CHR 0x00, CHR 0x00, CHR 0x00, CHR 0x00, CHR 0x00, CHR 0x00, CHR 0x00]) =
     [0x80000000, 0x00000000, 0x00000000, 0x00000000, 0x00000000, 0x00000000,
      0x00000000, 0x00000000, 0x00000000, 0x00000000, 0x00000000, 0x00000000,
      0x00000000, 0x00000000, 0x00000000, 0x00000000]"
  by (simp add: chunks_numeral_step be32_def)

lemma sha1_empty_schedule:
  "expand 64 (rev
     [0x80000000, 0x00000000, 0x00000000, 0x00000000, 0x00000000, 0x00000000,
      0x00000000, 0x00000000, 0x00000000, 0x00000000, 0x00000000, 0x00000000,
      0x00000000, 0x00000000, 0x00000000, 0x00000000]) =
   rev
     [0x80000000, 0x00000000, 0x00000000, 0x00000000, 0x00000000, 0x00000000,
      0x00000000, 0x00000000, 0x00000000, 0x00000000, 0x00000000, 0x00000000,
      0x00000000, 0x00000000, 0x00000000, 0x00000000, 0x00000001, 0x00000000,
      0x00000000, 0x00000002, 0x00000000, 0x00000000, 0x00000004, 0x00000000,
      0x00000002, 0x00000008, 0x00000000, 0x00000000, 0x00000010, 0x00000000,
      0x0000000a, 0x00000020, 0x00000006, 0x00000000, 0x00000040, 0x00000008,
      0x00000028, 0x00000080, 0x00000008, 0x00000000, 0x00000108, 0x00000000,
      0x000000a0, 0x00000200, 0x00000064, 0x00000000, 0x00000408, 0x00000088,
      0x0000029c, 0x00000800, 0x00000080, 0x00000028, 0x00001088, 0x00000000,
      0x00000a40, 0x00002000, 0x00000668, 0x00000080, 0x00004088, 0x00000880,
      0x000028c8, 0x00008000, 0x000008a8, 0x00000080, 0x000108e8, 0x00000000,
      0x0000a000, 0x00020080, 0x00006400, 0x00000000, 0x00040800, 0x00008800,
      0x00029c10, 0x00080000, 0x00008080, 0x00002820, 0x001088c0, 0x00000000,
      0x000a40c0, 0x00200080]"
  by (simp add: expand_numeral_step rotl32_def)

lemma sha1_empty_rounds:
  "sha1Rounds 0 (0x67452301, 0xEFCDAB89, 0x98BADCFE, 0x10325476, 0xC3D2E1F0)
     [0x80000000, 0x00000000, 0x00000000, 0x00000000, 0x00000000, 0x00000000,
      0x00000000, 0x00000000, 0x00000000, 0x00000000, 0x00000000, 0x00000000,
      0x00000000, 0x00000000, 0x00000000, 0x00000000, 0x00000001, 0x00000000,
      0x00000000, 0x00000002, 0x00000000, 0x00000000, 0x00000004, 0x00000000,
      0x00000002, 0x00000008, 0x00000000, 0x00000000, 0x00000010, 0x00000000,
      0x0000000a, 0x00000020, 0x00000006, 0x00000000, 0x00000040, 0x00000008,
      0x00000028, 0x00000080, 0x00000008, 0x00000000, 0x00000108, 0x00000000,
      0x000000a0, 0x00000200, 0x00000064, 0x00000000, 0x00000408, 0x00000088,
      0x0000029c, 0x00000800, 0x00000080, 0x00000028, 0x00001088, 0x00000000,
      0x00000a40, 0x00002000, 0x00000668, 0x00000080, 0x00004088, 0x00000880,
      0x000028c8, 0x00008000, 0x000008a8, 0x00000080, 0x000108e8, 0x00000000,
      0x0000a000, 0x00020080, 0x00006400, 0x00000000, 0x00040800, 0x00008800,
      0x00029c10, 0x00080000, 0x00008080, 0x00002820, 0x001088c0, 0x00000000,
      0x000a40c0, 0x00200080] =
   (0x72f480ed, 0x6e9d9f84, 0x999ae2f1, 0x852dc41a, 0xec052519)"
  by (simp add: rotl32_def)

lemma sha1_empty_block:
  "sha1Block (0x67452301, 0xEFCDAB89, 0x98BADCFE, 0x10325476, 0xC3D2E1F0)
     [CHR 0x80, CHR 0x00, CHR 0x00, CHR 0x00, CHR 0x00, CHR 0x00, CHR 0x00, CHR 0x00,
      CHR 0x00, CHR 0x00, CHR 0x00, CHR 0x00, CHR 0x00, CHR 0x00, CHR 0x00, CHR 0x00,
      CHR 0x00, CHR 0x00, CHR 0x00, CHR 0x00, CHR 0x00, CHR 0x00, CHR 0x00, CHR 0x00,
      CHR 0x00, CHR 0x00, CHR 0x00, CHR 0x00, CHR 0x00, CHR 0x00, CHR 0x00, CHR 0x00,
      CHR 0x00, CHR 0x00, CHR 0x00, CHR 0x00, CHR 0x00, CHR 0x00, CHR 0x00, CHR 0x00,
      CHR 0x00, CHR 0x00, CHR 0x00, CHR 0x00, CHR 0x00, CHR 0x00, CHR 0x00, CHR 0x00,
      CHR 0x00, CHR 0x00, CHR 0x00, CHR 0x00, CHR 0x00, CHR 0x00, CHR 0x00, CHR 0x00,
      CHR 0x00, CHR 0x00, CHR 0x00, CHR 0x00, CHR 0x00, CHR 0x00, CHR 0x00, CHR 0x00] =
   (0xda39a3ee, 0x5e6b4b0d, 0x3255bfef, 0x95601890, 0xafd80709)"
  unfolding sha1Block.simps sha1_empty_words sha1_empty_schedule rev_rev_ident sha1_empty_rounds
  by simp

lemma sha1_empty_digest:
  "sha1 [] =
     [CHR 0xda, CHR 0x39, CHR 0xa3, CHR 0xee, CHR 0x5e, CHR 0x6b, CHR 0x4b, CHR 0x0d,
      CHR 0x32, CHR 0x55, CHR 0xbf, CHR 0xef, CHR 0x95, CHR 0x60, CHR 0x18, CHR 0x90,
      CHR 0xaf, CHR 0xd8, CHR 0x07, CHR 0x09]"
  unfolding sha1_def sha1_empty_pad
  by (simp add: chunks_numeral_step sha1_empty_block wordBytes_def char_of_def bit_Suc_0_iff)

lemma sha1_ab80pk_pad:
  "sha1Pad ''ab80pk'' =
     [CHR 0x61, CHR 0x62, CHR 0x38, CHR 0x30, CHR 0x70, CHR 0x6b, CHR 0x80, CHR 0x00,
      CHR 0x00, CHR 0x00, CHR 0x00, CHR 0x00, CHR 0x00, CHR 0x00, CHR 0x00, CHR 0x00,
      CHR 0x00, CHR 0x00, CHR 0x00, CHR 0x00, CHR 0x00, CHR 0x00, CHR 0x00, CHR 0x00,
      CHR 0x00, CHR 0x00, CHR 0x00, CHR 0x00, CHR 0x00, CHR 0x00, CHR 0x00, CHR 0x00,
      CHR 0x00, CHR 0x00, CHR 0x00, CHR 0x00, CHR 0x00, CHR 0x00, CHR 0x00, CHR 0x00,
      CHR 0x00, CHR 0x00, CHR 0x00, CHR 0x00, CHR 0x00, CHR 0x00, CHR 0x00, CHR 0x00,
      CHR 0x00, CHR 0x00, CHR 0x00, CHR 0x00, CHR 0x00, CHR 0x00, CHR 0x00, CHR 0x00,
      CHR 0x00, CHR 0x00, CHR 0x00, CHR 0x00, CHR 0x00, CHR 0x00, CHR 0x00, CHR 0x30]"
  by (simp add: sha1Pad_def char_of_def replicate_numeral_step bit_Suc_0_iff)

lemma sha1_ab80pk_words:
  "map be32 (chunks 16 4
     [CHR 0x61, CHR 0x62, CHR 0x38, CHR 0x30, CHR 0x70, CHR 0x6b, CHR 0x80, CHR 0x00,
      CHR 0x00, CHR 0x00, CHR 0x00, CHR 0x00, CHR 0x00, CHR 0x00, CHR 0x00, CHR 0x00,
      CHR 0x00, CHR 0x00, CHR 0x00, CHR 0x00, CHR 0x00, CHR 0x00, CHR 0x00, CHR 0x00,
      CHR 0x00, CHR 0x00, CHR 0x00, CHR 0x00, CHR 0x00, CHR 0x00, CHR 0x00, CHR 0x00,
      CHR 0x00, CHR 0x00, CHR 0x00, CHR 0x00, CHR 0x00, CHR 0x00, CHR 0x00, CHR 0x00,
      CHR 0x00, CHR 0x00, CHR 0x00, CHR 0x00, CHR 0x00, CHR 0x00, CHR 0x00, CHR 0x00,
      CHR 0x00, CHR 0x00, CHR 0x00, CHR 0x00, CHR 0x00, CHR 0x00, CHR 0x00, CHR 0x00,
      CHR 0x00, CHR 0x00, CHR 0x00, CHR 0x00, CHR 0x00, CHR 0x00, CHR 0x00, CHR 0x30]) =
     [0x61623830, 0x706b8000, 0x00000000, 0x00000000, 0x00000000, 0x00000000,
      0x00000000, 0x00000000, 0x00000000, 0x00000000, 0x00000000, 0x00000000,
      0x00000000, 0x00000000, 0x00000000, 0x00000030]"
  by (simp add: chunks_numeral_step be32_def)

lemma sha1_ab80pk_schedule:
  "expand 64 (rev
     [0x61623830, 0x706b8000, 0x00000000, 0x00000000, 0x00000000, 0x00000000,
      0x00000000, 0x00000000, 0x00000000, 0x00000000, 0x00000000, 0x00000000,
      0x00000000, 0x00000000, 0x00000000, 0x00000030]) =
   rev
     [0x61623830, 0x706b8000, 0x00000000, 0x00000000, 0x00000000, 0x00000000,
      0x00000000, 0x00000000, 0x00000000, 0x00000000, 0x00000000, 0x00000000,
      0x00000000, 0x00000000, 0x00000000, 0x00000030, 0xc2c47060, 0xe0d70000,
      0x00000060, 0x8588e0c1, 0xc1ae0001, 0x000000c0, 0x0b11c183, 0x835c0063,
      0x8588e141, 0xd78d8307, 0x06b80007, 0x00000300, 0x2c47060c, 0x0d7001ee,
      0x93ab65c7, 0x9f980cbe, 0x9479215e, 0x42f20c02, 0xb11c19b0, 0x23e384be,
      0x48159719, 0x7e6031fa, 0x7da38376, 0x06b83187, 0xd253e3c4, 0xd1b81ee7,
      0x3ab65c79, 0xf980cb29, 0x4c83d46a, 0xac7cc1a7, 0x07e2198d, 0x2ea3caa3,
      0xb694351a, 0x6e971fad, 0xda3830e7, 0x252e96ee, 0x2f45bf50, 0x1d39e27a,
      0x1a79dfa3, 0xadccb527, 0x8690d1ba, 0xb9ac2b80, 0x03821ba6, 0xec849bb5,
      0xbb10b26f, 0x38c9e5b1, 0x8f16d102, 0xadd1a48c, 0xa5ea63ed, 0xfa06e782,
      0xb65c613a, 0xe2f31998, 0xe8546a3c, 0x7cc1a7ac, 0xe2198d07, 0xa3caa02e,
      0xb8721cba, 0x9a6fb560, 0x5a08d1bb, 0x1d98f64d, 0x8c7b7862, 0x67a26e55,
      0xaafb934b, 0xf0cd3684]"
  by (simp add: expand_numeral_step rotl32_def)

lemma sha1_ab80pk_rounds:
  "sha1Rounds 0 (0x67452301, 0xEFCDAB89, 0x98BADCFE, 0x10325476, 0xC3D2E1F0)
     [0x61623830, 0x706b8000, 0x00000000, 0x00000000, 0x00000000, 0x00000000,
      0x00000000, 0x00000000, 0x00000000, 0x00000000, 0x00000000, 0x00000000,
      0x00000000, 0x00000000, 0x00000000, 0x00000030, 0xc2c47060, 0xe0d70000,
      0x00000060, 0x8588e0c1, 0xc1ae0001, 0x000000c0, 0x0b11c183, 0x835c0063,
      0x8588e141, 0xd78d8307, 0x06b80007, 0x00000300, 0x2c47060c, 0x0d7001ee,
      0x93ab65c7, 0x9f980cbe, 0x9479215e, 0x42f20c02, 0xb11c19b0, 0x23e384be,
      0x48159719, 0x7e6031fa, 0x7da38376, 0x06b83187, 0xd253e3c4, 0xd1b81ee7,
      0x3ab65c79, 0xf980cb29, 0x4c83d46a, 0xac7cc1a7, 0x07e2198d, 0x2ea3caa3,
      0xb694351a, 0x6e971fad, 0xda3830e7, 0x252e96ee, 0x2f45bf50, 0x1d39e27a,
      0x1a79dfa3, 0xadccb527, 0x8690d1ba, 0xb9ac2b80, 0x03821ba6, 0xec849bb5,
      0xbb10b26f, 0x38c9e5b1, 0x8f16d102, 0xadd1a48c, 0xa5ea63ed, 0xfa06e782,
      0xb65c613a, 0xe2f31998, 0xe8546a3c, 0x7cc1a7ac, 0xe2198d07, 0xa3caa02e,
      0xb8721cba, 0x9a6fb560, 0x5a08d1bb, 0x1d98f64d, 0x8c7b7862, 0x67a26e55,
      0xaafb934b, 0xf0cd3684] =
   (0x22b2d949, 0x761a8638, 0xe2329e56, 0xb72bfa3a, 0x9895640d)"
  by (simp add: rotl32_def)

lemma sha1_ab80pk_block:
  "sha1Block (0x67452301, 0xEFCDAB89, 0x98BADCFE, 0x10325476, 0xC3D2E1F0)
     [CHR 0x61, CHR 0x62, CHR 0x38, CHR 0x30, CHR 0x70, CHR 0x6b, CHR 0x80, CHR 0x00,
      CHR 0x00, CHR 0x00, CHR 0x00, CHR 0x00, CHR 0x00, CHR 0x00, CHR 0x00, CHR 0x00,
      CHR 0x00, CHR 0x00, CHR 0x00, CHR 0x00, CHR 0x00, CHR 0x00, CHR 0x00, CHR 0x00,
      CHR 0x00, CHR 0x00, CHR 0x00, CHR 0x00, CHR 0x00, CHR 0x00, CHR 0x00, CHR 0x00,
      CHR 0x00, CHR 0x00, CHR 0x00, CHR 0x00, CHR 0x00, CHR 0x00, CHR 0x00, CHR 0x00,
      CHR 0x00, CHR 0x00, CHR 0x00, CHR 0x00, CHR 0x00, CHR 0x00, CHR 0x00, CHR 0x00,
      CHR 0x00, CHR 0x00, CHR 0x00, CHR 0x00, CHR 0x00, CHR 0x00, CHR 0x00, CHR 0x00,
      CHR 0x00, CHR 0x00, CHR 0x00, CHR 0x00, CHR 0x00, CHR 0x00, CHR 0x00, CHR 0x30] =
   (0x89f7fc4a, 0x65e831c1, 0x7aed7b54, 0xc75e4eb0, 0x5c6845fd)"
  unfolding sha1Block.simps sha1_ab80pk_words sha1_ab80pk_schedule rev_rev_ident sha1_ab80pk_rounds
  by simp

lemma sha1_ab80pk_digest:
  "sha1 ''ab80pk'' =
     [CHR 0x89, CHR 0xf7, CHR 0xfc, CHR 0x4a, CHR 0x65, CHR 0xe8, CHR 0x31, CHR 0xc1,
      CHR 0x7a, CHR 0xed, CHR 0x7b, CHR 0x54, CHR 0xc7, CHR 0x5e, CHR 0x4e, CHR 0xb0,
      CHR 0x5c, CHR 0x68, CHR 0x45, CHR 0xfd]"
  unfolding sha1_def sha1_ab80pk_pad
  by (simp add: chunks_numeral_step sha1_ab80pk_block wordBytes_def char_of_def bit_Suc_0_iff)







lemma sha1_vector2_pad:
  "sha1Pad [CHR 0x61, CHR 0x62, CHR 0x38, CHR 0x30, CHR 0x70, CHR 0x6b, CHR 0xac, CHR 0xab,
      CHR 0xfe, CHR 0x62, CHR 0xab, CHR 0x06, CHR 0xa9, CHR 0xba, CHR 0x69, CHR 0x91] =
     [CHR 0x61, CHR 0x62, CHR 0x38, CHR 0x30, CHR 0x70, CHR 0x6b, CHR 0xac, CHR 0xab,
      CHR 0xfe, CHR 0x62, CHR 0xab, CHR 0x06, CHR 0xa9, CHR 0xba, CHR 0x69, CHR 0x91,
      CHR 0x80, CHR 0x00, CHR 0x00, CHR 0x00, CHR 0x00, CHR 0x00, CHR 0x00, CHR 0x00,
      CHR 0x00, CHR 0x00, CHR 0x00, CHR 0x00, CHR 0x00, CHR 0x00, CHR 0x00, CHR 0x00,
      CHR 0x00, CHR 0x00, CHR 0x00, CHR 0x00, CHR 0x00, CHR 0x00, CHR 0x00, CHR 0x00,
      CHR 0x00, CHR 0x00, CHR 0x00, CHR 0x00, CHR 0x00, CHR 0x00, CHR 0x00, CHR 0x00,
      CHR 0x00, CHR 0x00, CHR 0x00, CHR 0x00, CHR 0x00, CHR 0x00, CHR 0x00, CHR 0x00,
      CHR 0x00, CHR 0x00, CHR 0x00, CHR 0x00, CHR 0x00, CHR 0x00, CHR 0x00, CHR 0x80]"
  by (simp add: sha1Pad_def char_of_def replicate_numeral_step bit_Suc_0_iff)

lemma sha1_vector2_words:
  "map be32 (chunks 16 4
     [CHR 0x61, CHR 0x62, CHR 0x38, CHR 0x30, CHR 0x70, CHR 0x6b, CHR 0xac, CHR 0xab,
      CHR 0xfe, CHR 0x62, CHR 0xab, CHR 0x06, CHR 0xa9, CHR 0xba, CHR 0x69, CHR 0x91,
      CHR 0x80, CHR 0x00, CHR 0x00, CHR 0x00, CHR 0x00, CHR 0x00, CHR 0x00, CHR 0x00,
      CHR 0x00, CHR 0x00, CHR 0x00, CHR 0x00, CHR 0x00, CHR 0x00, CHR 0x00, CHR 0x00,
      CHR 0x00, CHR 0x00, CHR 0x00, CHR 0x00, CHR 0x00, CHR 0x00, CHR 0x00, CHR 0x00,
      CHR 0x00, CHR 0x00, CHR 0x00, CHR 0x00, CHR 0x00, CHR 0x00, CHR 0x00, CHR 0x00,
      CHR 0x00, CHR 0x00, CHR 0x00, CHR 0x00, CHR 0x00, CHR 0x00, CHR 0x00, CHR 0x00,
      CHR 0x00, CHR 0x00, CHR 0x00, CHR 0x00, CHR 0x00, CHR 0x00, CHR 0x00, CHR 0x80]) =
     [0x61623830, 0x706bacab, 0xfe62ab06, 0xa9ba6991, 0x80000000, 0x00000000,
      0x00000000, 0x00000000, 0x00000000, 0x00000000, 0x00000000, 0x00000000,
      0x00000000, 0x00000000, 0x00000000, 0x00000080]"
  by (simp add: chunks_numeral_step be32_def)

lemma sha1_vector2_schedule:
  "expand 64 (rev
     [0x61623830, 0x706bacab, 0xfe62ab06, 0xa9ba6991, 0x80000000, 0x00000000,
      0x00000000, 0x00000000, 0x00000000, 0x00000000, 0x00000000, 0x00000000,
      0x00000000, 0x00000000, 0x00000000, 0x00000080]) =
   rev
     [0x61623830, 0x706bacab, 0xfe62ab06, 0xa9ba6991, 0x80000000, 0x00000000,
      0x00000000, 0x00000000, 0x00000000, 0x00000000, 0x00000000, 0x00000000,
      0x00000000, 0x00000000, 0x00000000, 0x00000080, 0x3e01266d, 0xb3a38a75,
      0xfcc5570c, 0x2f769ff9, 0x674714ea, 0xf98aae19, 0x5eed3ff2, 0xce8e28d4,
      0x8f1710e9, 0xda9d6b0f, 0x6496ffb0, 0x40c31e21, 0x7bb4ffcb, 0x3a38a253,
      0x405e0f7c, 0x0d32bbd4, 0xefd787b6, 0x0c2ce3fe, 0xe44c0f05, 0xf3d150ee,
      0x9c646e5a, 0xd2e05737, 0xc4eae112, 0x0a8b2cab, 0xad6c7fb1, 0xa530ef84,
      0xe3ca47ab, 0x488d265a, 0x057ce2d2, 0x0c401236, 0x47dc9f04, 0x1dd32ca6,
      0x556fca69, 0x3a238720, 0x0c6214a5, 0x79a7d7d4, 0xcfa3d574, 0xb092fa1f,
      0xaffbace6, 0xfb9675fa, 0x56b610d9, 0xf0cbc430, 0x2285884c, 0xd7b9e6c2,
      0xfb90d924, 0x07089987, 0xd5e23e92, 0x4fec0eb0, 0x1166af24, 0xcd5b54ac,
      0x5d508e5b, 0x1fd4c85a, 0xad27e834, 0x22b93072, 0x66f695ee, 0xd32cae9d,
      0x8fd80f86, 0x19bfc761, 0xaed2e35c, 0x817b7132, 0x35d591c7, 0x891e8833,
      0x4612ead4, 0xc89cca8c]"
  by (simp add: expand_numeral_step rotl32_def)

lemma sha1_vector2_rounds:
  "sha1Rounds 0 (0x67452301, 0xEFCDAB89, 0x98BADCFE, 0x10325476, 0xC3D2E1F0)
     [0x61623830, 0x706bacab, 0xfe62ab06, 0xa9ba6991, 0x80000000, 0x00000000,
      0x00000000, 0x00000000, 0x00000000, 0x00000000, 0x00000000, 0x00000000,
      0x00000000, 0x00000000, 0x00000000, 0x00000080, 0x3e01266d, 0xb3a38a75,
      0xfcc5570c, 0x2f769ff9, 0x674714ea, 0xf98aae19, 0x5eed3ff2, 0xce8e28d4,
      0x8f1710e9, 0xda9d6b0f, 0x6496ffb0, 0x40c31e21, 0x7bb4ffcb, 0x3a38a253,
      0x405e0f7c, 0x0d32bbd4, 0xefd787b6, 0x0c2ce3fe, 0xe44c0f05, 0xf3d150ee,
      0x9c646e5a, 0xd2e05737, 0xc4eae112, 0x0a8b2cab, 0xad6c7fb1, 0xa530ef84,
      0xe3ca47ab, 0x488d265a, 0x057ce2d2, 0x0c401236, 0x47dc9f04, 0x1dd32ca6,
      0x556fca69, 0x3a238720, 0x0c6214a5, 0x79a7d7d4, 0xcfa3d574, 0xb092fa1f,
      0xaffbace6, 0xfb9675fa, 0x56b610d9, 0xf0cbc430, 0x2285884c, 0xd7b9e6c2,
      0xfb90d924, 0x07089987, 0xd5e23e92, 0x4fec0eb0, 0x1166af24, 0xcd5b54ac,
      0x5d508e5b, 0x1fd4c85a, 0xad27e834, 0x22b93072, 0x66f695ee, 0xd32cae9d,
      0x8fd80f86, 0x19bfc761, 0xaed2e35c, 0x817b7132, 0x35d591c7, 0x891e8833,
      0x4612ead4, 0xc89cca8c] =
   (0xd5b54e04, 0xdb80e382, 0xa4f63cb8, 0xebf84696, 0xdcb87cb6)"
  by (simp add: rotl32_def)

lemma sha1_vector2_block:
  "sha1Block (0x67452301, 0xEFCDAB89, 0x98BADCFE, 0x10325476, 0xC3D2E1F0)
     [CHR 0x61, CHR 0x62, CHR 0x38, CHR 0x30, CHR 0x70, CHR 0x6b, CHR 0xac, CHR 0xab,
      CHR 0xfe, CHR 0x62, CHR 0xab, CHR 0x06, CHR 0xa9, CHR 0xba, CHR 0x69, CHR 0x91,
      CHR 0x80, CHR 0x00, CHR 0x00, CHR 0x00, CHR 0x00, CHR 0x00, CHR 0x00, CHR 0x00,
      CHR 0x00, CHR 0x00, CHR 0x00, CHR 0x00, CHR 0x00, CHR 0x00, CHR 0x00, CHR 0x00,
      CHR 0x00, CHR 0x00, CHR 0x00, CHR 0x00, CHR 0x00, CHR 0x00, CHR 0x00, CHR 0x00,
      CHR 0x00, CHR 0x00, CHR 0x00, CHR 0x00, CHR 0x00, CHR 0x00, CHR 0x00, CHR 0x00,
      CHR 0x00, CHR 0x00, CHR 0x00, CHR 0x00, CHR 0x00, CHR 0x00, CHR 0x00, CHR 0x00,
      CHR 0x00, CHR 0x00, CHR 0x00, CHR 0x00, CHR 0x00, CHR 0x00, CHR 0x00, CHR 0x80] =
   (0x3cfa7105, 0xcb4e8f0b, 0x3db119b6, 0xfc2a9b0c, 0xa08b5ea6)"
  unfolding sha1Block.simps sha1_vector2_words sha1_vector2_schedule rev_rev_ident sha1_vector2_rounds
  by simp

lemma sha1_vector2_digest:
  "sha1 [CHR 0x61, CHR 0x62, CHR 0x38, CHR 0x30, CHR 0x70, CHR 0x6b, CHR 0xac, CHR 0xab,
      CHR 0xfe, CHR 0x62, CHR 0xab, CHR 0x06, CHR 0xa9, CHR 0xba, CHR 0x69, CHR 0x91] =
     [CHR 0x3c, CHR 0xfa, CHR 0x71, CHR 0x05, CHR 0xcb, CHR 0x4e, CHR 0x8f, CHR 0x0b,
      CHR 0x3d, CHR 0xb1, CHR 0x19, CHR 0xb6, CHR 0xfc, CHR 0x2a, CHR 0x9b, CHR 0x0c,
      CHR 0xa0, CHR 0x8b, CHR 0x5e, CHR 0xa6]"
  unfolding sha1_def sha1_vector2_pad
  by (simp add: chunks_numeral_step sha1_vector2_block wordBytes_def char_of_def bit_Suc_0_iff)

lemma exampleDigest_sha1: "sha1 ''h:102'' = exampleDigest"
  unfolding exampleDigest_def by (rule sha1_h102_digest)

lemma exampleDigest_msb: "getMostSignificantBit (toAddress exampleDigest) = 158"
  by code_simp

lemma exampleDigest_short: "toAddress (take 19 exampleDigest) = toAddress exampleDigest"
proof -
  have "take addressLength (take 19 exampleDigest @ replicate addressLength (CHR 0x00)) =
        take addressLength (exampleDigest @ replicate addressLength (CHR 0x00))"
    by (simp add: exampleDigest_def addressLength_def)
  then show ?thesis unfolding toAddress_def by (rule arg_cong)
qed

section \<open>Properties of the lookup\<close>

lemma getNextOffset_range:
  assumes "0 \<le> msb" "msb \<le> 159" "getNextOffset msb off = Inr off'"
  shows "0 \<le> msb + off' \<and> msb + off' \<le> 159"
  using assms by (auto simp: getNextOffset_def Let_def split: if_splits)

lemma findNearestNode_walk:
  "0 \<le> msb \<Longrightarrow> msb \<le> 159 \<Longrightarrow>
   findNearestNode n t msb off = Some (scanBuckets n t (bucketWalk msb off))"
proof (induction msb off rule: bucketWalk.induct)
  case (1 msb offset)
  show ?case
  proof (cases "getNextOffset msb offset")
    case (Inl e)
    then show ?thesis using 1(2,3)
      by (subst findNearestNode.simps, subst bucketWalk.simps) (simp split: option.splits)
  next
    case (Inr off')
    have ih: "findNearestNode n t msb off' = Some (scanBuckets n t (bucketWalk msb off'))"
      using 1 Inr by simp
    show ?thesis using 1(2,3) Inr ih
      by (subst findNearestNode.simps, subst bucketWalk.simps) (simp split: option.splits)
  qed
qed

lemma getNextOffset_pos:
  "0 \<le> msb \<Longrightarrow> msb \<le> 159 \<Longrightarrow> 0 < off \<Longrightarrow>
   getNextOffset msb off =
     (if msb - off < 0 then (if msb + off + 1 < 160 then Inr (off + 1) else Inl OutOfRange)
      else Inr (- off))"
  by (simp add: getNextOffset_def Let_def)

lemma getNextOffset_nonpos:
  "0 \<le> msb \<Longrightarrow> msb \<le> 159 \<Longrightarrow> off \<le> 0 \<Longrightarrow>
   getNextOffset msb off =
     (if msb - off + 1 > 159 then (if msb + off - 1 \<ge> 0 then Inr (off - 1) else Inl OutOfRange)
      else Inr (1 - off))"
  by (simp add: getNextOffset_def Let_def)

lemma walkSet_end:
  assumes "0 \<le> msb" "msb \<le> 159" "0 \<le> msb + off" "msb + off \<le> 159"
    "getNextOffset msb off = Inl e"
  shows "walkSet msb off = {msb + off}"
proof (cases "0 < off")
  case True
  have "msb - off < 0 \<and> \<not> msb + off + 1 < 160"
    using assms(5) getNextOffset_pos[OF assms(1,2) True] by (simp split: if_splits)
  with True assms(1-4) show ?thesis
    unfolding walkSet_def by auto
next
  case False
  then have le: "off \<le> 0" by simp
  have "msb - off + 1 > 159 \<and> \<not> msb + off - 1 \<ge> 0"
    using assms(5) getNextOffset_nonpos[OF assms(1,2) le] by (simp split: if_splits)
  with le assms(1-4) show ?thesis
    unfolding walkSet_def by auto
qed

lemma walkSet_step:
  assumes "0 \<le> msb" "msb \<le> 159" "0 \<le> msb + off" "msb + off \<le> 159"
    "getNextOffset msb off = Inr off'"
  shows "msb + off \<notin> walkSet msb off' \<and> walkSet msb off = insert (msb + off) (walkSet msb off')"
proof (cases "0 < off")
  case True
  note pos = getNextOffset_pos[OF assms(1,2) True]
  show ?thesis
  proof (cases "msb - off < 0")
    case True
    then have "off' = off + 1" "msb + off + 1 < 160"
      using assms(5) pos by (simp_all split: if_splits)
    with True \<open>0 < off\<close> assms(1-4) show ?thesis
      unfolding walkSet_def by auto
  next
    case False
    then have "off' = - off"
      using assms(5) pos by simp
    with False \<open>0 < off\<close> assms(1-4) show ?thesis
      unfolding walkSet_def by auto
  qed
next
  case False
  then have le: "off \<le> 0" by simp
  note np = getNextOffset_nonpos[OF assms(1,2) le]
  show ?thesis
  proof (cases "msb - off + 1 > 159")
    case True
    then have "off' = off - 1" "msb + off - 1 \<ge> 0"
      using assms(5) np by (simp_all split: if_splits)
    with True le assms(1-4) show ?thesis
      unfolding walkSet_def by auto
  next
    case False
    then have "off' = 1 - off"
      using assms(5) np by simp
    with False le assms(1-4) show ?thesis
      unfolding walkSet_def by auto
  qed
qed

lemma bucketWalk_enum:
  "0 \<le> msb \<Longrightarrow> msb \<le> 159 \<Longrightarrow> 0 \<le> msb + off \<Longrightarrow> msb + off \<le> 159 \<Longrightarrow>
   distinct (bucketWalk msb off) \<and> set (bucketWalk msb off) = walkSet msb off"
proof (induction msb off rule: bucketWalk.induct)
  case (1 msb offset)
  show ?case
  proof (cases "getNextOffset msb offset")
    case (Inl e)
    have "bucketWalk msb offset = [msb + offset]"
      using 1(2,3) Inl by (subst bucketWalk.simps) simp
    then show ?thesis using walkSet_end[OF 1(2-5) Inl] by simp
  next
    case (Inr off')
    have rng: "0 \<le> msb + off'" "msb + off' \<le> 159"
      using getNextOffset_range[OF 1(2,3) Inr] by auto
    have ih: "distinct (bucketWalk msb off') \<and> set (bucketWalk msb off') = walkSet msb off'"
      using 1(1)[OF _ Inr] 1(2,3) rng by simp
    have bw: "bucketWalk msb offset = (msb + offset) # bucketWalk msb off'"
      using 1(2,3) Inr by (subst bucketWalk.simps) simp
    show ?thesis using ih walkSet_step[OF 1(2-5) Inr] unfolding bw by simp
  qed
qed

lemma walkSet_0: "walkSet msb 0 = {0..159}"
  unfolding walkSet_def by auto

lemma getMostSignificantBit_bounds:
  "- 1 \<le> getMostSignificantBit d \<and> getMostSignificantBit d \<le> 159"
proof (cases "find (\<lambda>i. bit d i) (rev [0..<addressBits])")
  case None
  then show ?thesis by (simp add: getMostSignificantBit_def)
next
  case (Some i)
  then obtain k where "k < length (rev [0..<addressBits])" "i = rev [0..<addressBits] ! k"
    unfolding find_Some_iff by blast
  then have "i \<in> set (rev [0..<addressBits])"
    using nth_mem by blast
  then have "i < 160" by (simp add: addressBits_def)
  with Some show ?thesis by (simp add: getMostSignificantBit_def)
qed

lemma getMostSignificantBit_zero: "getMostSignificantBit d < 0 \<longleftrightarrow> d = 0"
proof
  assume "getMostSignificantBit d < 0"
  then have "find (\<lambda>i. bit d i) (rev [0..<addressBits]) = None"
    by (auto simp: getMostSignificantBit_def split: option.splits)
  then have "\<forall>i<160. \<not> bit d i"
    by (auto simp: find_None_iff addressBits_def)
  then show "d = 0"
    by (intro bit_word_eqI) simp
next
  assume "d = 0"
  then show "getMostSignificantBit d < 0"
    by (simp add: getMostSignificantBit_def find_None_iff split: option.splits)
qed

lemma mset_insertBy: "mset (insertBy f x ys) = add_mset x (mset ys)"
  by (induction ys) auto

lemma mset_sortSlice: "mset (sortSlice f xs) = mset xs"
  by (induction xs) (auto simp: sortSlice_def mset_insertBy)

lemma length_sortSlice: "length (sortSlice f xs) = length xs"
  using mset_sortSlice[of f xs] by (metis size_mset)

lemma set_insertBy: "set (insertBy f x ys) = insert x (set ys)"
  by (induction ys) auto

lemma sorted_insertBy:
  fixes key :: "'a \<Rightarrow> 'b::linorder"
  shows "sorted_wrt (\<lambda>x y. key x \<le> key y) ys \<Longrightarrow>
         sorted_wrt (\<lambda>x y. key x \<le> key y) (insertBy (\<lambda>x y. key x \<le> key y) x ys)"
  by (induction ys) (auto simp: set_insertBy)

lemma sorted_sortSlice:
  fixes key :: "'a \<Rightarrow> 'b::linorder"
  shows "sorted_wrt (\<lambda>x y. key x \<le> key y) (sortSlice (\<lambda>x y. key x \<le> key y) xs)"
  by (induction xs) (auto simp: sortSlice_def sorted_insertBy)

lemma nearestPeers_short: "length b < alpha \<Longrightarrow> nearestPeers t b = b"
  by (simp add: nearestPeers_def)

lemma nearestPeers_length: "length (nearestPeers t b) = min alpha (length b)"
  by (simp add: nearestPeers_def length_sortSlice)

lemma nearestPeers_closest:
  "\<exists>rest. mset (nearestPeers t b @ rest) = mset b \<and>
     (alpha \<le> length b \<longrightarrow>
        (\<forall>x\<in>set (nearestPeers t b). \<forall>y\<in>set rest.
            lessThanEqual (xorAddress (dAddr x) t) (xorAddress (dAddr y) t)))"
proof (cases "length b < alpha")
  case True
  then show ?thesis by (intro exI[of _ "[]"]) (simp add: nearestPeers_def)
next
  case False
  define key where "key = (\<lambda>x::nodeInfo. xorAddress (dAddr x) t)"
  define s where "s = sortSlice (\<lambda>x y. key x \<le> key y) b"
  have np: "nearestPeers t b = take alpha s"
    using False by (simp add: nearestPeers_def s_def key_def lessThanEqual_def)
  have "sorted_wrt (\<lambda>x y. key x \<le> key y) (take alpha s @ drop alpha s)"
    using sorted_sortSlice[of key b] by (simp add: s_def)
  then have cross: "\<forall>x\<in>set (take alpha s). \<forall>y\<in>set (drop alpha s). key x \<le> key y"
    unfolding sorted_wrt_append by blast
  have "mset (take alpha s @ drop alpha s) = mset b"
    by (simp add: s_def mset_sortSlice)
  with cross show ?thesis
    unfolding np by (intro exI[of _ "drop alpha s"]) (simp add: lessThanEqual_def key_def)
qed

lemma scanBuckets_find:
  "scanBuckets n t ixs =
     (case find (\<lambda>i. routingTable n i \<noteq> Some []) ixs of
        None \<Rightarrow> Inr []
      | Some i \<Rightarrow> (case routingTable n i of
                     None \<Rightarrow> Inl Panic
                   | Some b \<Rightarrow> Inr (map toNodeInfo (nearestPeers t b))))"
  by (induction ixs) (auto split: option.splits)

lemma bucketWalk_last:
  "0 \<le> msb \<Longrightarrow> msb \<le> 159 \<Longrightarrow>
   getNextOffset msb (last (bucketWalk msb off) - msb) = Inl OutOfRange"
proof (induction msb off rule: bucketWalk.induct)
  case (1 msb offset)
  show ?case
  proof (cases "getNextOffset msb offset")
    case (Inl e)
    have "bucketWalk msb offset = [msb + offset]"
      using 1(2,3) Inl by (subst bucketWalk.simps) simp
    moreover have "e = OutOfRange"
      using Inl by (auto simp: getNextOffset_def Let_def split: if_splits)
    ultimately show ?thesis using Inl by simp
  next
    case (Inr off')
    have bw: "bucketWalk msb offset = (msb + offset) # bucketWalk msb off'"
      using 1(2,3) Inr by (subst bucketWalk.simps) simp
    have ne: "bucketWalk msb off' \<noteq> []"
      by (subst bucketWalk.simps) simp
    show ?thesis using 1(1)[OF _ Inr] 1(2,3) ne unfolding bw by simp
  qed
qed

lemma find_Some_mem: "find P xs = Some x \<Longrightarrow> x \<in> set xs \<and> P x"
  by (induction xs) (auto split: if_splits)

lemma findNearestNode_complete:
  assumes "tableComplete n" "0 \<le> msb" "msb \<le> 159"
  shows "\<exists>ret. findNearestNode n t msb 0 = Some (Inr ret)"
proof -
  have walk: "set (bucketWalk msb 0) = {0..159}"
    using bucketWalk_enum[of msb 0] assms(2,3) by (simp add: walkSet_0)
  have full: "\<And>i. i \<in> {0..159} \<Longrightarrow> routingTable n i \<noteq> None"
    using assms(1) by (simp add: tableComplete_def list_all_iff)
  have "\<exists>ret. scanBuckets n t (bucketWalk msb 0) = Inr ret"
  proof (cases "find (\<lambda>i. routingTable n i \<noteq> Some []) (bucketWalk msb 0)")
    case None
    then show ?thesis unfolding scanBuckets_find by simp
  next
    case (Some i)
    then have "i \<in> {0..159}"
      using find_Some_mem[OF Some] walk by blast
    then obtain b where "routingTable n i = Some b"
      using full by blast
    with Some show ?thesis unfolding scanBuckets_find by simp
  qed
  then show ?thesis
    using findNearestNode_walk[OF assms(2,3)] by simp
qed

lemma NewNode_tableComplete: "tableComplete (NewNode dif na pk sk da nnc qcap)"
  by (simp add: tableComplete_def NewNode_def list_all_iff addressBits_def)

lemma updateRoutingTable_tableComplete:
  assumes "updateRoutingTable n info now = Inr n'" "tableComplete n"
  shows "tableComplete n'"
  using assms
  by (auto simp: updateRoutingTable_def tableComplete_def list_all_iff Let_def
           split: if_splits option.splits)

text \<open>
  C4. For every starting most significant bit in [0,159] the bucket indices that
  \<^verbatim>\<open>findNearestNode\<close> visits from offset 0 are pairwise distinct and are exactly the
  indices 0..159; after the last of them \<^verbatim>\<open>getNextOffset\<close> reports out of range.
  \<^verbatim>\<open>findNearestNode\<close> visits the buckets in this order, and on a table whose buckets
  are all empty it returns the empty list.
\<close>

theorem bucketWalk_enumerates_every_index:
  assumes "0 \<le> msb" and "msb \<le> 159"
  shows "distinct (bucketWalk msb 0) \<and> set (bucketWalk msb 0) = {0..159}
       \<and> getNextOffset msb (last (bucketWalk msb 0) - msb) = Inl OutOfRange
       \<and> findNearestNode n t msb 0 = Some (scanBuckets n t (bucketWalk msb 0))
       \<and> (list_all (\<lambda>i. routingTable n i = Some []) [0..159]
            \<longrightarrow> findNearestNode n t msb 0 = Some (Inr []))"
proof -
  have enum: "distinct (bucketWalk msb 0)" "set (bucketWalk msb 0) = {0..159}"
    using bucketWalk_enum[of msb 0] assms by (simp_all add: walkSet_0)
  have walk: "findNearestNode n t msb 0 = Some (scanBuckets n t (bucketWalk msb 0))"
    by (rule findNearestNode_walk[OF assms])
  have empty: "findNearestNode n t msb 0 = Some (Inr [])"
    if "list_all (\<lambda>i. routingTable n i = Some []) [0..159]"
  proof -
    have "find (\<lambda>i. routingTable n i \<noteq> Some []) (bucketWalk msb 0) = None"
      using that enum(2) by (simp add: find_None_iff list_all_iff)
    then show ?thesis unfolding walk scanBuckets_find by simp
  qed
  show ?thesis
    using enum walk empty bucketWalk_last[OF assms, of 0] by blast
qed

theorem bucketWalk_enumerates_every_index_witness:
  "(0::int) \<le> 159 \<and> (159::int) \<le> 159
   \<and> distinct (bucketWalk 159 0) \<and> set (bucketWalk 159 0) = {0..159}
   \<and> getNextOffset 159 (last (bucketWalk 159 0) - 159) = Inl OutOfRange
   \<and> list_all (\<lambda>i. routingTable (NewNode 0 ''a'' [] [] 1 [] 0) i = Some []) [0..159]
   \<and> findNearestNode (NewNode 0 ''a'' [] [] 1 [] 0) 5 159 0 = Some (Inr [])"
proof -
  have a: "(0::int) \<le> 159 \<and> (159::int) \<le> 159"
    by simp
  have h: "list_all (\<lambda>i. routingTable (NewNode 0 ''a'' [] [] 1 [] 0) i = Some []) [0..159]"
    by (simp add: NewNode_def list_all_iff addressBits_def)
  show ?thesis
    using a h bucketWalk_enumerates_every_index[of 159 "NewNode 0 ''a'' [] [] 1 [] 0" 5]
    by blast
qed

text \<open>
  C10. On a node whose routing table has a bucket for every index in [0,159], as
  \<^verbatim>\<open>NewNode\<close> builds it, \<^verbatim>\<open>findNearestNode\<close> called from offset 0 with a most
  significant bit in [0,159] returns a list of peers and so never reaches its panic;
  every offset that \<^verbatim>\<open>getNextOffset\<close> returns keeps the bucket index within [0,159].
\<close>

theorem findNearestNode_never_panics:
  assumes "tableComplete n" and "0 \<le> msb" and "msb \<le> 159"
  shows "(\<exists>ret. findNearestNode n t msb 0 = Some (Inr ret))
       \<and> (getNextOffset msb off = Inr off' \<longrightarrow> 0 \<le> msb + off' \<and> msb + off' \<le> 159)"
  using findNearestNode_complete[OF assms] getNextOffset_range[OF assms(2,3)] by blast

theorem findNearestNode_never_panics_witness:
  "tableComplete (NewNode 0 ''a'' [] [] 1 [] 0) \<and> (0::int) \<le> 159 \<and> (159::int) \<le> 159
   \<and> (\<exists>ret. findNearestNode (NewNode 0 ''a'' [] [] 1 [] 0) 5 159 0 = Some (Inr ret))
   \<and> getNextOffset 159 0 = Inr (- 1) \<and> (0::int) \<le> 159 + - 1 \<and> (159::int) + - 1 \<le> 159"
proof -
  have a: "(0::int) \<le> 159" "(159::int) \<le> 159"
    by simp_all
  have c: "tableComplete (NewNode 0 ''a'' [] [] 1 [] 0)"
    by (simp add: tableComplete_def NewNode_def list_all_iff addressBits_def)
  have g: "getNextOffset 159 0 = Inr (- 1)"
    by (simp add: getNextOffset_def)
  show ?thesis
    using a c g findNearestNode_never_panics[OF c a, of 5 0 "- 1"] by blast
qed

text \<open>
  C5. Whenever \<^verbatim>\<open>findNode\<close> returns peers, it returns at most \<^verbatim>\<open>alpha\<close> = 3 of them.
  They come from the first bucket on the walk from the most significant bit that is not
  empty (none is returned when every bucket on the walk is empty): all of the bucket when
  it holds fewer than \<^verbatim>\<open>alpha\<close> peers, otherwise \<^verbatim>\<open>alpha\<close> peers of it whose XOR
  distance to the target is at most that of every peer of the bucket that is not returned.
\<close>

theorem findNode_returns_nearest:
  assumes "findNode n t = Inr ret"
  shows "length ret \<le> alpha \<and>
    (case find (\<lambda>i. routingTable n i \<noteq> Some [])
            (bucketWalk (getMostSignificantBit (xorAddress (DAddr n) t)) 0) of
       None \<Rightarrow> ret = []
     | Some i \<Rightarrow>
         (\<exists>b rest. routingTable n i = Some b \<and> ret = map toNodeInfo (nearestPeers t b)
            \<and> (length b < alpha \<longrightarrow> nearestPeers t b = b)
            \<and> mset (nearestPeers t b @ rest) = mset b
            \<and> (alpha \<le> length b \<longrightarrow>
                  length (nearestPeers t b) = alpha
                  \<and> (\<forall>x\<in>set (nearestPeers t b). \<forall>y\<in>set rest.
                        lessThanEqual (xorAddress (dAddr x) t) (xorAddress (dAddr y) t)))))"
proof -
  define msb where "msb = getMostSignificantBit (xorAddress (DAddr n) t)"
  have lo: "0 \<le> msb"
    using assms unfolding findNode_def msb_def Let_def by (simp split: if_splits)
  have hi: "msb \<le> 159"
    using getMostSignificantBit_bounds[of "xorAddress (DAddr n) t"] by (simp add: msb_def)
  have scan: "scanBuckets n t (bucketWalk msb 0) = Inr ret"
    using assms lo findNearestNode_walk[OF lo hi, of n t 0]
    unfolding findNode_def msb_def[symmetric] Let_def
    by (simp split: sum.splits)
  show ?thesis
  proof (cases "find (\<lambda>i. routingTable n i \<noteq> Some []) (bucketWalk msb 0)")
    case None
    then have "ret = []"
      using scan unfolding scanBuckets_find by simp
    with None show ?thesis by (simp add: msb_def[symmetric])
  next
    case (Some i)
    then obtain b where b: "routingTable n i = Some b" "ret = map toNodeInfo (nearestPeers t b)"
      using scan unfolding scanBuckets_find by (auto split: option.splits)
    obtain rest where rest: "mset (nearestPeers t b @ rest) = mset b"
      "alpha \<le> length b \<longrightarrow>
        (\<forall>x\<in>set (nearestPeers t b). \<forall>y\<in>set rest.
            lessThanEqual (xorAddress (dAddr x) t) (xorAddress (dAddr y) t))"
      using nearestPeers_closest[of t b] by blast
    have len: "length ret \<le> alpha"
      by (simp add: b(2) nearestPeers_length)
    have "\<exists>b rest. routingTable n i = Some b \<and> ret = map toNodeInfo (nearestPeers t b)
            \<and> (length b < alpha \<longrightarrow> nearestPeers t b = b)
            \<and> mset (nearestPeers t b @ rest) = mset b
            \<and> (alpha \<le> length b \<longrightarrow>
                  length (nearestPeers t b) = alpha
                  \<and> (\<forall>x\<in>set (nearestPeers t b). \<forall>y\<in>set rest.
                        lessThanEqual (xorAddress (dAddr x) t) (xorAddress (dAddr y) t)))"
      using b rest nearestPeers_short[of b t] nearestPeers_length[of t b]
      by (intro exI[of _ b] exI[of _ rest]) simp
    with Some len show ?thesis by (simp add: msb_def[symmetric])
  qed
qed

lemma exampleNode4_msb: "getMostSignificantBit (xorAddress 0 4) = 2"
  unfolding xorAddress_def by code_simp

lemma exampleNode4_nearest:
  "nearestPeers 4 [examplePeer 7, examplePeer 6, examplePeer 5, examplePeer 4] =
     [examplePeer 4, examplePeer 5, examplePeer 6]"
  by (simp add: nearestPeers_def alpha_def sortSlice_def lessThanEqual_def xorAddress_def
        examplePeer_def word_le_nat_alt)

lemma exampleNode4_findNode:
  "findNode exampleNode4 4 = Inr (map toNodeInfo [examplePeer 4, examplePeer 5, examplePeer 6])"
  unfolding findNode_def
  by (subst findNearestNode.simps)
     (simp add: exampleNode4_def exampleNode_def NewNode_def exampleNode4_msb exampleNode4_nearest)

theorem findNode_returns_nearest_witness:
  "findNode exampleNode4 4 = Inr (map toNodeInfo [examplePeer 4, examplePeer 5, examplePeer 6])
   \<and> length (map toNodeInfo [examplePeer 4, examplePeer 5, examplePeer 6]) \<le> alpha
   \<and> (case find (\<lambda>i. routingTable exampleNode4 i \<noteq> Some [])
            (bucketWalk (getMostSignificantBit (xorAddress (DAddr exampleNode4) 4)) 0) of
       None \<Rightarrow> map toNodeInfo [examplePeer 4, examplePeer 5, examplePeer 6] = []
     | Some i \<Rightarrow>
         (\<exists>b rest. routingTable exampleNode4 i = Some b
            \<and> map toNodeInfo [examplePeer 4, examplePeer 5, examplePeer 6]
                = map toNodeInfo (nearestPeers 4 b)
            \<and> (length b < alpha \<longrightarrow> nearestPeers 4 b = b)
            \<and> mset (nearestPeers 4 b @ rest) = mset b
            \<and> (alpha \<le> length b \<longrightarrow>
                  length (nearestPeers 4 b) = alpha
                  \<and> (\<forall>x\<in>set (nearestPeers 4 b). \<forall>y\<in>set rest.
                        lessThanEqual (xorAddress (dAddr x) 4) (xorAddress (dAddr y) 4)))))"
  using exampleNode4_findNode findNode_returns_nearest[OF exampleNode4_findNode] by blast

section \<open>Properties of the routing table\<close>

lemma popAndAppend_eq:
  assumes "idx < length prev"
  shows "popAndAppend idx ni prev = take idx prev @ drop (Suc idx) prev @ [ni]"
proof (rule nth_equalityI)
  show "length (popAndAppend idx ni prev) = length (take idx prev @ drop (Suc idx) prev @ [ni])"
    using assms by (simp add: popAndAppend_def Let_def)
next
  fix i assume "i < length (popAndAppend idx ni prev)"
  then have i: "i < length prev" by (simp add: popAndAppend_def Let_def)
  show "popAndAppend idx ni prev ! i = (take idx prev @ drop (Suc idx) prev @ [ni]) ! i"
  proof (cases "i + 1 = length prev")
    case True
    then have "(take idx prev @ drop (Suc idx) prev @ [ni]) ! i = ni"
      using assms by (simp add: nth_append min_def)
    then show ?thesis using i True by (simp add: popAndAppend_def Let_def)
  next
    case False
    show ?thesis
    proof (cases "i < idx")
      case True
      then show ?thesis using i False assms by (simp add: popAndAppend_def Let_def nth_append)
    next
      case ge: False
      then have "(take idx prev @ drop (Suc idx) prev @ [ni]) ! i = prev ! (i + 1)"
        using i False assms by (simp add: nth_append min_def)
      then show ?thesis using i False ge by (simp add: popAndAppend_def Let_def)
    qed
  qed
qed

lemma find_enumerate_None:
  "find (\<lambda>(i, m). P m) (enumerate k xs) = None \<longleftrightarrow> (\<forall>m\<in>set xs. \<not> P m)"
  by (induction xs arbitrary: k) auto

lemma find_enumerate_Some:
  "find (\<lambda>(i, m). P m) (enumerate k xs) = Some (i, m) \<Longrightarrow>
   k \<le> i \<and> i - k < length xs \<and> m = xs ! (i - k) \<and> P m \<and> (\<forall>j<i - k. \<not> P (xs ! j))"
proof (induction xs arbitrary: k)
  case Nil
  then show ?case by simp
next
  case (Cons x xs)
  show ?case
  proof (cases "P x")
    case True
    with Cons.prems show ?thesis by simp
  next
    case False
    with Cons.prems have "find (\<lambda>(i, m). P m) (enumerate (Suc k) xs) = Some (i, m)"
      by simp
    from Cons.IH[OF this] have ih: "Suc k \<le> i" "i - Suc k < length xs" "m = xs ! (i - Suc k)"
      "P m" "\<forall>j<i - Suc k. \<not> P (xs ! j)" by auto
    have eq: "i - k = Suc (i - Suc k)" using ih(1) by simp
    show ?thesis
      using ih False unfolding eq by (auto simp: nth_Cons split: nat.splits)
  qed
qed

lemma mset_move_to_tail:
  assumes "i < length rb" "f y = f (rb ! i)"
  shows "mset (map f (take i rb @ drop (Suc i) rb @ [y])) = mset (map f rb)"
proof -
  have "rb = take i rb @ rb ! i # drop (Suc i) rb"
    using assms(1) by (rule id_take_nth_drop)
  then have "mset (map f rb) = mset (map f (take i rb @ rb ! i # drop (Suc i) rb))"
    by simp
  then show ?thesis using assms(2) by simp
qed

text \<open>
  C6. In the bucket that \<^verbatim>\<open>updateRoutingTable\<close> selects: touching a peer that is
  present moves it to the tail (with a new access time) and leaves the size of the bucket
  and the peers in it unchanged; inserting a new peer into a bucket that holds
  \<^verbatim>\<open>bucketSize\<close> = 20 peers removes the head and appends the new peer at the tail;
  a new peer is appended to a bucket that holds fewer. A bucket of at most 20 peers has
  at most 20 peers afterwards.
\<close>

theorem updateRoutingTable_bucket:
  assumes "getMostSignificantBit (xorAddress (DAddr n) (dAddr info)) = idx"
    and "0 \<le> idx" and "routingTable n idx = Some rb"
  shows "\<exists>rb'. updateRoutingTable n info now = Inr (n\<lparr>routingTable := (routingTable n)(idx \<mapsto> rb')\<rparr>)
     \<and> (dAddr info \<in> dAddr ` set rb \<longrightarrow>
          (\<exists>i<length rb. dAddr (rb ! i) = dAddr info
              \<and> rb' = take i rb @ drop (Suc i) rb @ [(rb ! i)\<lparr>accessedAt := now\<rparr>])
          \<and> length rb' = length rb
          \<and> mset (map (\<lambda>m. (dAddr m, nAddr m)) rb') = mset (map (\<lambda>m. (dAddr m, nAddr m)) rb))
     \<and> (dAddr info \<notin> dAddr ` set rb \<and> length rb = bucketSize \<longrightarrow>
          rb' = tl rb @ [\<lparr>dAddr = dAddr info, nAddr = nAddr info, accessedAt = now\<rparr>]
          \<and> length rb' = bucketSize)
     \<and> (dAddr info \<notin> dAddr ` set rb \<and> length rb < bucketSize \<longrightarrow>
          rb' = rb @ [\<lparr>dAddr = dAddr info, nAddr = nAddr info, accessedAt = now\<rparr>])
     \<and> (length rb \<le> bucketSize \<longrightarrow> length rb' \<le> bucketSize)"
proof (cases "find (\<lambda>(i, m). dAddr m = dAddr info) (enumerate 0 rb)")
  case None
  then have absent: "dAddr info \<notin> dAddr ` set rb"
    using find_enumerate_None[of "\<lambda>m. dAddr m = dAddr info" 0 rb] by auto
  define ni where "ni = \<lparr>dAddr = dAddr info, nAddr = nAddr info, accessedAt = now\<rparr>"
  define rb' where "rb' = (if length rb < bucketSize then rb @ [ni] else popAndAppend 0 ni rb)"
  have upd: "updateRoutingTable n info now = Inr (n\<lparr>routingTable := (routingTable n)(idx \<mapsto> rb')\<rparr>)"
    using assms None by (simp add: updateRoutingTable_def Let_def rb'_def ni_def)
  have full: "rb' = tl rb @ [ni]" if "length rb = bucketSize"
  proof -
    have "0 < length rb" using that by (simp add: bucketSize_def)
    then have "popAndAppend 0 ni rb = take 0 rb @ drop (Suc 0) rb @ [ni]"
      by (rule popAndAppend_eq)
    then show ?thesis using that by (simp add: rb'_def drop_Suc)
  qed
  have len: "length rb' \<le> bucketSize" if "length rb \<le> bucketSize"
    using that by (simp add: rb'_def popAndAppend_def Let_def)
  show ?thesis
    using upd absent full len unfolding ni_def[symmetric]
    by (intro exI[of _ rb']) (auto simp: rb'_def)
next
  case (Some p)
  obtain i m where p: "p = (i, m)" by (cases p)
  from find_enumerate_Some[OF Some[unfolded p]]
  have i: "i < length rb" "m = rb ! i" "dAddr m = dAddr info" by auto
  define rb' where "rb' = popAndAppend i (m\<lparr>accessedAt := now\<rparr>) rb"
  have upd: "updateRoutingTable n info now = Inr (n\<lparr>routingTable := (routingTable n)(idx \<mapsto> rb')\<rparr>)"
    using assms Some p by (simp add: updateRoutingTable_def Let_def rb'_def)
  have eq: "rb' = take i rb @ drop (Suc i) rb @ [(rb ! i)\<lparr>accessedAt := now\<rparr>]"
    unfolding rb'_def i(2) by (rule popAndAppend_eq[OF i(1)])
  have len: "length rb' = length rb"
    by (simp add: rb'_def popAndAppend_def Let_def)
  have ms: "mset (map (\<lambda>m. (dAddr m, nAddr m)) rb') = mset (map (\<lambda>m. (dAddr m, nAddr m)) rb)"
    unfolding eq by (rule mset_move_to_tail[OF i(1)]) simp
  have present: "dAddr info \<in> dAddr ` set rb"
    using i by (metis imageI nth_mem)
  have ex: "\<exists>i<length rb. dAddr (rb ! i) = dAddr info
              \<and> rb' = take i rb @ drop (Suc i) rb @ [(rb ! i)\<lparr>accessedAt := now\<rparr>]"
    using i eq by blast
  show ?thesis
    using upd present ex len ms by (intro exI[of _ rb']) simp
qed

lemma exampleNode4_msb6:
  "getMostSignificantBit (xorAddress (DAddr exampleNode4) (dAddr (examplePeer 6))) = 2"
proof -
  have "getMostSignificantBit (0 XOR 6) = 2" by code_simp
  then show ?thesis
    by (simp add: exampleNode4_def exampleNode_def NewNode_def examplePeer_def xorAddress_def)
qed

lemma exampleNodeFull_msb52:
  "getMostSignificantBit (xorAddress (DAddr exampleNodeFull) (dAddr (examplePeer 52))) = 5"
proof -
  have "getMostSignificantBit (0 XOR 52) = 5" by code_simp
  then show ?thesis
    by (simp add: exampleNodeFull_def exampleNode_def NewNode_def examplePeer_def xorAddress_def)
qed

theorem updateRoutingTable_bucket_witness:
  "getMostSignificantBit (xorAddress (DAddr exampleNode4) (dAddr (examplePeer 6))) = 2
   \<and> (0::int) \<le> 2
   \<and> routingTable exampleNode4 2 = Some [examplePeer 7, examplePeer 6, examplePeer 5, examplePeer 4]
   \<and> dAddr (examplePeer 6) \<in> dAddr ` set [examplePeer 7, examplePeer 6, examplePeer 5, examplePeer 4]
   \<and> (\<exists>rb'. updateRoutingTable exampleNode4 (examplePeer 6) 9 =
               Inr (exampleNode4\<lparr>routingTable := (routingTable exampleNode4)(2 \<mapsto> rb')\<rparr>)
          \<and> length rb' = 4
          \<and> mset (map (\<lambda>m. (dAddr m, nAddr m)) rb') =
              mset (map (\<lambda>m. (dAddr m, nAddr m))
                     [examplePeer 7, examplePeer 6, examplePeer 5, examplePeer 4]))
   \<and> getMostSignificantBit (xorAddress (DAddr exampleNodeFull) (dAddr (examplePeer 52))) = 5
   \<and> (0::int) \<le> 5
   \<and> routingTable exampleNodeFull 5 = Some exampleBucket20
   \<and> dAddr (examplePeer 52) \<notin> dAddr ` set exampleBucket20
   \<and> length exampleBucket20 = bucketSize
   \<and> (\<exists>rb'. updateRoutingTable exampleNodeFull (examplePeer 52) 9 =
               Inr (exampleNodeFull\<lparr>routingTable := (routingTable exampleNodeFull)(5 \<mapsto> rb')\<rparr>)
          \<and> rb' = tl exampleBucket20 @ [\<lparr>dAddr = 52, nAddr = ''p'', accessedAt = 9\<rparr>]
          \<and> length rb' = bucketSize)"
proof -
  have a: "(0::int) \<le> 2" "(0::int) \<le> 5" by simp_all
  have t4: "routingTable exampleNode4 2 =
              Some [examplePeer 7, examplePeer 6, examplePeer 5, examplePeer 4]"
    by (simp add: exampleNode4_def)
  have in4: "dAddr (examplePeer 6) \<in>
               dAddr ` set [examplePeer 7, examplePeer 6, examplePeer 5, examplePeer 4]"
    by simp
  have l4: "length [examplePeer 7, examplePeer 6, examplePeer 5, examplePeer 4] = 4" by simp
  have tf: "routingTable exampleNodeFull 5 = Some exampleBucket20"
    by (simp add: exampleNodeFull_def)
  have out: "dAddr (examplePeer 52) \<notin> dAddr ` set exampleBucket20"
    by (simp add: exampleBucket20_def examplePeer_def)
  have lf: "length exampleBucket20 = bucketSize"
    by (simp add: exampleBucket20_def bucketSize_def)
  have d52: "dAddr (examplePeer 52) = 52" "nAddr (examplePeer 52) = ''p''"
    by (simp_all add: examplePeer_def)
  note r4 = updateRoutingTable_bucket[OF exampleNode4_msb6 a(1) t4, of 9]
  note rf = updateRoutingTable_bucket[OF exampleNodeFull_msb52 a(2) tf, of 9]
  have c4: "\<exists>rb'. updateRoutingTable exampleNode4 (examplePeer 6) 9 =
               Inr (exampleNode4\<lparr>routingTable := (routingTable exampleNode4)(2 \<mapsto> rb')\<rparr>)
          \<and> length rb' = 4
          \<and> mset (map (\<lambda>m. (dAddr m, nAddr m)) rb') =
              mset (map (\<lambda>m. (dAddr m, nAddr m))
                     [examplePeer 7, examplePeer 6, examplePeer 5, examplePeer 4])"
    using r4 in4 unfolding l4 by blast
  have cf: "\<exists>rb'. updateRoutingTable exampleNodeFull (examplePeer 52) 9 =
               Inr (exampleNodeFull\<lparr>routingTable := (routingTable exampleNodeFull)(5 \<mapsto> rb')\<rparr>)
          \<and> rb' = tl exampleBucket20 @ [\<lparr>dAddr = 52, nAddr = ''p'', accessedAt = 9\<rparr>]
          \<and> length rb' = bucketSize"
    using rf out lf unfolding d52 by blast
  show ?thesis
    using a exampleNode4_msb6 exampleNodeFull_msb52 t4 in4 tf out lf c4 cf by blast
qed

section \<open>Properties of the storage\<close>

lemma updateRoutingTable_frame:
  assumes "updateRoutingTable n info now = Inr n'"
  shows "n' = n\<lparr>routingTable := routingTable n'\<rparr>"
proof (cases "getMostSignificantBit (xorAddress (DAddr n) (dAddr info)) < 0")
  case True
  with assms show ?thesis by (simp add: updateRoutingTable_def)
next
  case False
  then obtain rb where rb: "routingTable n (getMostSignificantBit (xorAddress (DAddr n) (dAddr info))) = Some rb"
    using assms by (cases "routingTable n (getMostSignificantBit (xorAddress (DAddr n) (dAddr info)))")
      (simp_all add: updateRoutingTable_def Let_def)
  show ?thesis
  proof (cases "find (\<lambda>(i, m). dAddr m = dAddr info) (enumerate 0 rb)")
    case None
    with assms False rb show ?thesis
      by (auto simp: updateRoutingTable_def Let_def)
  next
    case (Some p)
    with assms False rb show ?thesis
      by (cases p) (auto simp: updateRoutingTable_def Let_def)
  qed
qed

lemma isValidSender_frame:
  assumes "isValidSender H n now ref = Inr (ok, n')"
  shows "n' = n\<lparr>routingTable := routingTable n'\<rparr> \<and> (\<not> ok \<longrightarrow> n' = n)"
proof (cases ref)
  case NilCert
  with assms show ?thesis by (simp add: isValidSender_def)
next
  case OwnCert
  with assms show ?thesis by (auto simp: isValidSender_def)
next
  case (OtherCert ct)
  show ?thesis
  proof (cases "updateRoutingTable n \<lparr>dAddr = toAddress (DoogleAddress ct),
                  nAddr = NetworkAddress ct, accessedAt = now\<rparr> now")
    case (Inl e)
    with assms OtherCert show ?thesis
      by (auto simp: isValidSender_def Let_def split: if_splits)
  next
    case (Inr m)
    from updateRoutingTable_frame[OF Inr] assms OtherCert Inr show ?thesis
      by (auto simp: isValidSender_def Let_def split: if_splits)
  qed
qed

lemma StoreItem_cases:
  assumes "StoreItem H n now req = (r, n')"
  shows "(r \<noteq> Inr () \<and> n' = n) \<or>
         (r = Inr ()
          \<and> dht n' = (dht n)(H (Index req) \<mapsto>
               (let as = (case dht n (H (Index req)) of None \<Rightarrow> [] | Some as \<Rightarrow> as)
                in if H (Url req) \<in> set as then as else as @ [H (Url req)]))
          \<and> items n' = (items n)(H (Url req) \<mapsto>
               \<lparr>dAddrStr = H (Url req), url = Url req, title = Title req,
                edges = map H (EdgeURLs req),
                localRank = (case items n (H (Url req)) of None \<Rightarrow> 0 | Some prev \<Rightarrow> localRank prev),
                rankComputedCount = 0\<rparr>)
          \<and> crawlJobs n' = (case items n (H (Url req)) of
                              None \<Rightarrow> crawlJobs n @ [EdgeURLs req]
                            | Some prev \<Rightarrow> crawlJobs n))"
proof (cases "isValidSender H n now (Certificate req)")
  case (Inl e)
  with assms show ?thesis by (auto simp: StoreItem_def)
next
  case (Inr p)
  obtain ok n1 where p: "p = (ok, n1)" by (cases p)
  note fr = isValidSender_frame[OF Inr[unfolded p]]
  show ?thesis
  proof (cases ok)
    case False
    with assms Inr p fr show ?thesis by (auto simp: StoreItem_def)
  next
    case True
    have d: "dht n1 = dht n" and i: "items n1 = items n" and c: "crawlJobs n1 = crawlJobs n"
      using fr by (metis Node.select_convs Node.surjective Node.update_convs)+
    show ?thesis
    proof (cases "items n (H (Url req))")
      case None
      with assms Inr p True d i c show ?thesis
        by (auto simp: StoreItem_def Let_def list_ex_iff split: option.splits)
    next
      case (Some prev)
      with assms Inr p True d i c show ?thesis
        by (auto simp: StoreItem_def Let_def list_ex_iff split: option.splits)
    qed
  qed
qed

text \<open>
  C7. \<^verbatim>\<open>StoreItem\<close> is idempotent on the pair of index address and item address: after
  a successful call the item address is listed under the index address, and a further
  call with the same url and index token leaves the whole dht, and so the list under that
  index address, as it is.
\<close>

theorem StoreItem_idempotent:
  assumes "StoreItem H n now req = (Inr (), n1)"
    and "StoreItem H n1 now' req' = (r, n2)"
    and "Url req' = Url req" and "Index req' = Index req"
  shows "dht n2 = dht n1
       \<and> (\<exists>as. dht n1 (H (Index req)) = Some as \<and> H (Url req) \<in> set as)"
proof -
  from StoreItem_cases[OF assms(1)]
  have ent: "\<exists>as. dht n1 (H (Index req)) = Some as \<and> H (Url req) \<in> set as"
    by (auto simp: Let_def)
  then obtain as where as: "dht n1 (H (Index req)) = Some as" "H (Url req) \<in> set as"
    by blast
  from StoreItem_cases[OF assms(2)] have "dht n2 = dht n1"
  proof
    assume "r \<noteq> Inr () \<and> n2 = n1"
    then show ?thesis by simp
  next
    assume a: "r = Inr ()
          \<and> dht n2 = (dht n1)(H (Index req') \<mapsto>
               (let as = (case dht n1 (H (Index req')) of None \<Rightarrow> [] | Some as \<Rightarrow> as)
                in if H (Url req') \<in> set as then as else as @ [H (Url req')]))
          \<and> items n2 = (items n1)(H (Url req') \<mapsto>
               \<lparr>dAddrStr = H (Url req'), url = Url req', title = Title req',
                edges = map H (EdgeURLs req'),
                localRank = (case items n1 (H (Url req')) of None \<Rightarrow> 0 | Some prev \<Rightarrow> localRank prev),
                rankComputedCount = 0\<rparr>)
          \<and> crawlJobs n2 = (case items n1 (H (Url req')) of
                              None \<Rightarrow> crawlJobs n1 @ [EdgeURLs req']
                            | Some prev \<Rightarrow> crawlJobs n1)"
    then have "dht n2 = (dht n1)(H (Index req) \<mapsto> as)"
      using as assms(3,4) by (simp add: Let_def)
    then show ?thesis using as(1) by (simp add: fun_upd_idem)
  qed
  with ent show ?thesis by simp
qed

lemma exampleRequest_first:
  "StoreItem sha1 exampleNode 0 exampleRequest =
     (Inr (), snd (StoreItem sha1 exampleNode 0 exampleRequest))"
  by (simp add: StoreItem_def isValidSender_def exampleRequest_def Let_def exampleNode_def
        NewNode_def)

theorem StoreItem_idempotent_witness:
  "StoreItem sha1 exampleNode 0 exampleRequest =
     (Inr (), snd (StoreItem sha1 exampleNode 0 exampleRequest))
   \<and> StoreItem sha1 (snd (StoreItem sha1 exampleNode 0 exampleRequest)) 1 exampleRequest =
       (fst (StoreItem sha1 (snd (StoreItem sha1 exampleNode 0 exampleRequest)) 1 exampleRequest),
        snd (StoreItem sha1 (snd (StoreItem sha1 exampleNode 0 exampleRequest)) 1 exampleRequest))
   \<and> Url exampleRequest = Url exampleRequest \<and> Index exampleRequest = Index exampleRequest
   \<and> dht (snd (StoreItem sha1 (snd (StoreItem sha1 exampleNode 0 exampleRequest)) 1 exampleRequest))
       = dht (snd (StoreItem sha1 exampleNode 0 exampleRequest))
   \<and> (\<exists>as. dht (snd (StoreItem sha1 exampleNode 0 exampleRequest)) (sha1 (Index exampleRequest)) = Some as
          \<and> sha1 (Url exampleRequest) \<in> set as)"
  using exampleRequest_first
    StoreItem_idempotent[OF exampleRequest_first prod.collapse[symmetric] refl refl]
  by simp

text \<open>
  C8. When a successful \<^verbatim>\<open>StoreItem\<close> finds an item registered under the item
  address, the new record has the url, title and edges of the request and the local rank
  of the previous record, and no crawl is scheduled; on a first insertion the record has
  local rank 0 and the edge urls are handed to the crawler.
\<close>

theorem StoreItem_keeps_localRank:
  assumes "StoreItem H n now req = (Inr (), n')"
  shows "(case items n (H (Url req)) of
            Some prev \<Rightarrow>
              items n' (H (Url req)) =
                Some \<lparr>dAddrStr = H (Url req), url = Url req, title = Title req,
                      edges = map H (EdgeURLs req), localRank = localRank prev,
                      rankComputedCount = 0\<rparr>
              \<and> crawlJobs n' = crawlJobs n
          | None \<Rightarrow>
              items n' (H (Url req)) =
                Some \<lparr>dAddrStr = H (Url req), url = Url req, title = Title req,
                      edges = map H (EdgeURLs req), localRank = 0,
                      rankComputedCount = 0\<rparr>
              \<and> crawlJobs n' = crawlJobs n @ [EdgeURLs req])"
  using StoreItem_cases[OF assms] by (auto split: option.splits)

lemma exampleRequest_replace:
  "StoreItem sha1 exampleNodeItem 0 exampleRequest =
     (Inr (), snd (StoreItem sha1 exampleNodeItem 0 exampleRequest))"
  by (simp add: StoreItem_def isValidSender_def exampleRequest_def Let_def exampleNodeItem_def
        exampleNode_def NewNode_def)

theorem StoreItem_keeps_localRank_witness:
  "StoreItem sha1 exampleNodeItem 0 exampleRequest =
     (Inr (), snd (StoreItem sha1 exampleNodeItem 0 exampleRequest))
   \<and> items (snd (StoreItem sha1 exampleNodeItem 0 exampleRequest)) (sha1 ''u'') =
       Some \<lparr>dAddrStr = sha1 ''u'', url = ''u'', title = ''t'', edges = [sha1 ''e''],
             localRank = 7, rankComputedCount = 0\<rparr>
   \<and> crawlJobs (snd (StoreItem sha1 exampleNodeItem 0 exampleRequest)) = []
   \<and> StoreItem sha1 exampleNode 0 exampleRequest =
       (Inr (), snd (StoreItem sha1 exampleNode 0 exampleRequest))
   \<and> items (snd (StoreItem sha1 exampleNode 0 exampleRequest)) (sha1 ''u'') =
       Some \<lparr>dAddrStr = sha1 ''u'', url = ''u'', title = ''t'', edges = [sha1 ''e''],
             localRank = 0, rankComputedCount = 0\<rparr>
   \<and> crawlJobs (snd (StoreItem sha1 exampleNode 0 exampleRequest)) = [[''e'']]"
proof -
  have old: "items exampleNodeItem (sha1 ''u'') =
      Some \<lparr>dAddrStr = sha1 ''u'', url = ''u'', title = ''old'', edges = [],
            localRank = 7, rankComputedCount = 2\<rparr>"
    "crawlJobs exampleNodeItem = []"
    by (simp_all add: exampleNodeItem_def exampleNode_def NewNode_def)
  have new: "items exampleNode (sha1 ''u'') = None" "crawlJobs exampleNode = []"
    by (simp_all add: exampleNode_def NewNode_def)
  have rq: "Url exampleRequest = ''u''" "Title exampleRequest = ''t''"
    "EdgeURLs exampleRequest = [''e'']"
    by (simp_all add: exampleRequest_def)
  show ?thesis
    using exampleRequest_replace exampleRequest_first
      StoreItem_keeps_localRank[OF exampleRequest_replace]
      StoreItem_keeps_localRank[OF exampleRequest_first]
    by (simp add: old new rq)
qed

section \<open>Properties of the admission check\<close>

lemma leadingZeroBits_nonneg: "0 \<le> leadingZeroBits a"
  using getMostSignificantBit_bounds[of a] by (simp add: leadingZeroBits_def addressBits_def)

lemma exampleShortCert_verify:
  "verifyAddress sha1 (toAddress (DoogleAddress exampleShortCert))
     (NetworkAddress exampleShortCert) (PublicKey exampleShortCert) (Nonce exampleShortCert)
     (Difficulty exampleShortCert)"
  using leadingZeroBits_nonneg
  by (simp add: verifyAddress_def verifyAddressHostPort_def exampleShortCert_def
        exampleDigest_sha1 exampleDigest_short)

text \<open>
  C3 as stated fails on a certificate with a 19-byte address: the declared difficulty
  reaches the local minimum and \<^verbatim>\<open>verifyAddress\<close> accepts the address as
  \<^verbatim>\<open>isValidSender\<close> would pass it on (copied into a zeroed array), yet the length
  guard returns false.
\<close>

theorem isValidSender_short_address_counterexample:
  "isValidSender sha1 exampleNode 0 (OtherCert exampleShortCert) = Inr (False, exampleNode)
   \<and> length (DoogleAddress exampleShortCert) = 19
   \<and> difficulty exampleNode \<le> Difficulty exampleShortCert
   \<and> verifyAddress sha1 (toAddress (DoogleAddress exampleShortCert))
        (NetworkAddress exampleShortCert) (PublicKey exampleShortCert) (Nonce exampleShortCert)
        (Difficulty exampleShortCert)"
  using exampleShortCert_verify
  by (simp add: isValidSender_def exampleShortCert_def exampleDigest_def addressLength_def
        exampleNode_def NewNode_def)

lemma updateRoutingTable_returns:
  assumes "tableComplete n"
  shows "\<exists>n'. updateRoutingTable n info now = Inr n'"
proof (cases "getMostSignificantBit (xorAddress (DAddr n) (dAddr info)) < 0")
  case True
  then show ?thesis by (simp add: updateRoutingTable_def)
next
  case False
  define idx where "idx = getMostSignificantBit (xorAddress (DAddr n) (dAddr info))"
  have "idx \<in> {0..159}"
    using False getMostSignificantBit_bounds[of "xorAddress (DAddr n) (dAddr info)"]
    by (simp add: idx_def)
  moreover have "\<And>i. i \<in> {0..159} \<Longrightarrow> routingTable n i \<noteq> None"
    using assms by (simp add: tableComplete_def list_all_iff)
  ultimately obtain rb where rb: "routingTable n idx = Some rb"
    by blast
  show ?thesis
    using False rb unfolding updateRoutingTable_def idx_def[symmetric] Let_def
    by (cases "find (\<lambda>(i, m). dAddr m = dAddr info) (enumerate 0 rb)") auto
qed

lemma updateRoutingTable_self:
  "updateRoutingTable n \<lparr>dAddr = DAddr n, nAddr = a, accessedAt = t\<rparr> now = Inr n"
proof -
  have "getMostSignificantBit (xorAddress (DAddr n) (DAddr n)) < 0"
    unfolding getMostSignificantBit_zero by (simp add: xorAddress_def)
  then show ?thesis by (simp add: updateRoutingTable_def)
qed

text \<open>
  C3, as amended. On a node with a bucket for every index whose certificate carries its
  own address, as \<^verbatim>\<open>NewNode\<close> builds it, \<^verbatim>\<open>isValidSender\<close> applied to a certificate
  returns true iff the certificate is the node's own certificate object, or its address
  has at least 20 bytes, its declared difficulty is at least the local minimum and
  \<^verbatim>\<open>verifyAddress\<close> accepts the address. Whenever it returns true, the node is the one
  that \<^verbatim>\<open>updateRoutingTable\<close> yields for the address and network address of the
  certificate (for the node's own certificate that is the node itself); whenever it
  returns false, the node is unchanged.
\<close>

theorem isValidSender_admits:
  assumes "tableComplete n" and "ref \<noteq> NilCert"
    and "toAddress (DoogleAddress (certificate n)) = DAddr n"
  shows "\<exists>ok n'. isValidSender H n now ref = Inr (ok, n')
     \<and> (ok \<longleftrightarrow> ref = OwnCert \<or>
           (addressLength \<le> length (DoogleAddress (certContents n ref))
            \<and> difficulty n \<le> Difficulty (certContents n ref)
            \<and> verifyAddress H (toAddress (DoogleAddress (certContents n ref)))
                  (NetworkAddress (certContents n ref)) (PublicKey (certContents n ref))
                  (Nonce (certContents n ref)) (Difficulty (certContents n ref))))
     \<and> (ok \<longrightarrow>
           updateRoutingTable n
             \<lparr>dAddr = toAddress (DoogleAddress (certContents n ref)),
              nAddr = NetworkAddress (certContents n ref), accessedAt = now\<rparr>
             now = Inr n')
     \<and> (\<not> ok \<longrightarrow> n' = n)"
proof (cases ref)
  case NilCert
  with assms(2) show ?thesis by simp
next
  case OwnCert
  have "isValidSender H n now ref = Inr (True, n)"
    using OwnCert by (simp add: isValidSender_def)
  moreover have "updateRoutingTable n
             \<lparr>dAddr = toAddress (DoogleAddress (certContents n ref)),
              nAddr = NetworkAddress (certContents n ref), accessedAt = now\<rparr>
             now = Inr n"
    using OwnCert assms(3) by (simp add: certContents_def updateRoutingTable_self)
  ultimately show ?thesis using OwnCert by auto
next
  case (OtherCert ct)
  have cc: "certContents n ref = ct"
    using OtherCert by (simp add: certContents_def)
  obtain m where m: "updateRoutingTable n
             \<lparr>dAddr = toAddress (DoogleAddress ct), nAddr = NetworkAddress ct, accessedAt = now\<rparr>
             now = Inr m"
    using updateRoutingTable_returns[OF assms(1)] by blast
  show ?thesis
  proof (cases "addressLength \<le> length (DoogleAddress ct) \<and> difficulty n \<le> Difficulty ct
              \<and> verifyAddress H (toAddress (DoogleAddress ct)) (NetworkAddress ct) (PublicKey ct)
                    (Nonce ct) (Difficulty ct)")
    case True
    then have "isValidSender H n now ref = Inr (True, m)"
      using OtherCert m by (simp add: isValidSender_def Let_def)
    then show ?thesis using True OtherCert m unfolding cc by auto
  next
    case False
    then have "isValidSender H n now ref = Inr (False, n)"
      using OtherCert by (auto simp: isValidSender_def Let_def)
    then show ?thesis using False OtherCert unfolding cc by auto
  qed
qed

lemma exampleCert_verify:
  "verifyAddress sha1 (toAddress (DoogleAddress exampleCert))
     (NetworkAddress exampleCert) (PublicKey exampleCert) (Nonce exampleCert)
     (Difficulty exampleCert)"
  using leadingZeroBits_nonneg
  by (simp add: verifyAddress_def verifyAddressHostPort_def exampleCert_def exampleDigest_sha1)

lemma exampleCert_touch:
  "updateRoutingTable exampleNode
     \<lparr>dAddr = toAddress exampleDigest, nAddr = ''h:102'', accessedAt = 0\<rparr> 0 = Inr exampleNodePeer"
proof -
  have "getMostSignificantBit (xorAddress (DAddr exampleNode) (toAddress exampleDigest)) = 158"
    using exampleDigest_msb by (simp add: exampleNode_def NewNode_def xorAddress_def)
  moreover have "routingTable exampleNode 158 = Some []"
    by (simp add: exampleNode_def NewNode_def addressBits_def)
  ultimately show ?thesis
    by (simp add: updateRoutingTable_def Let_def bucketSize_def exampleNodePeer_def)
qed

lemma exampleNode_selfAddress:
  "toAddress (DoogleAddress (certificate exampleNode)) = DAddr exampleNode"
proof -
  have "toAddress (addressBytes 0) = 0" by code_simp
  then show ?thesis by (simp add: exampleNode_def NewNode_def)
qed

theorem isValidSender_admits_witness:
  "tableComplete exampleNode \<and> OtherCert exampleCert \<noteq> NilCert
   \<and> toAddress (DoogleAddress (certificate exampleNode)) = DAddr exampleNode
   \<and> addressLength \<le> length (DoogleAddress exampleCert)
   \<and> difficulty exampleNode \<le> Difficulty exampleCert
   \<and> verifyAddress sha1 (toAddress (DoogleAddress exampleCert))
        (NetworkAddress exampleCert) (PublicKey exampleCert) (Nonce exampleCert)
        (Difficulty exampleCert)
   \<and> isValidSender sha1 exampleNode 0 (OtherCert exampleCert) = Inr (True, exampleNodePeer)
   \<and> updateRoutingTable exampleNode
        \<lparr>dAddr = toAddress exampleDigest, nAddr = ''h:102'', accessedAt = 0\<rparr> 0 = Inr exampleNodePeer"
proof -
  have c: "tableComplete exampleNode"
    unfolding exampleNode_def by (rule NewNode_tableComplete)
  have nn: "OtherCert exampleCert \<noteq> NilCert" by simp
  have l: "addressLength \<le> length (DoogleAddress exampleCert)"
    by (simp add: exampleCert_def exampleDigest_def addressLength_def)
  have d: "difficulty exampleNode \<le> Difficulty exampleCert"
    by (simp add: exampleCert_def exampleNode_def NewNode_def)
  have na: "NetworkAddress exampleCert = ''h:102''" "DoogleAddress exampleCert = exampleDigest"
    by (simp_all add: exampleCert_def)
  have cc: "certContents exampleNode (OtherCert exampleCert) = exampleCert"
    by (simp add: certContents_def)
  from isValidSender_admits[OF c nn exampleNode_selfAddress, of sha1 0]
  obtain ok n' where r: "isValidSender sha1 exampleNode 0 (OtherCert exampleCert) = Inr (ok, n')"
    "ok \<longleftrightarrow> (addressLength \<le> length (DoogleAddress exampleCert)
              \<and> difficulty exampleNode \<le> Difficulty exampleCert
              \<and> verifyAddress sha1 (toAddress (DoogleAddress exampleCert))
                   (NetworkAddress exampleCert) (PublicKey exampleCert) (Nonce exampleCert)
                   (Difficulty exampleCert))"
    "ok \<longrightarrow> updateRoutingTable exampleNode
             \<lparr>dAddr = toAddress (DoogleAddress exampleCert), nAddr = NetworkAddress exampleCert,
              accessedAt = 0\<rparr> 0 = Inr n'"
    unfolding cc by auto
  have ok: ok using r(2) l d exampleCert_verify by blast
  then have "n' = exampleNodePeer"
    using r(3) exampleCert_touch by (simp add: na)
  with r(1) ok c nn l d exampleCert_verify exampleCert_touch exampleNode_selfAddress
  show ?thesis by simp
qed

section \<open>Properties of the handlers\<close>

lemma findNode_all_empty:
  assumes "list_all (\<lambda>i. routingTable n i = Some []) [0..159]"
    and "xorAddress (DAddr n) t \<noteq> 0"
  shows "findNode n t = Inr []"
proof -
  define msb where "msb = getMostSignificantBit (xorAddress (DAddr n) t)"
  have lo: "0 \<le> msb"
    using assms(2) getMostSignificantBit_zero[of "xorAddress (DAddr n) t"] by (simp add: msb_def)
  have hi: "msb \<le> 159"
    using getMostSignificantBit_bounds[of "xorAddress (DAddr n) t"] by (simp add: msb_def)
  have "set (bucketWalk msb 0) = {0..159}"
    using bucketWalk_enum[of msb 0] lo hi by (simp add: walkSet_0)
  then have "find (\<lambda>i. routingTable n i \<noteq> Some []) (bucketWalk msb 0) = None"
    using assms(1) by (simp add: find_None_iff list_all_iff)
  then have "findNearestNode n t msb 0 = Some (Inr [])"
    using findNearestNode_walk[OF lo hi, of n t 0] by (simp add: scanBuckets_find)
  then show ?thesis
    using lo unfolding findNode_def msb_def[symmetric] Let_def by simp
qed

text \<open>
  C1, as amended. For \<^verbatim>\<open>PingWithCertificate\<close>, \<^verbatim>\<open>FindNode\<close>, \<^verbatim>\<open>FindIndex\<close>
  and \<^verbatim>\<open>StoreItem\<close>: if \<^verbatim>\<open>isValidSender\<close> does not admit the certificate of the
  call, the call returns \<^verbatim>\<open>InvalidArgument\<close> and leaves the node unchanged.
  \<^verbatim>\<open>PingTo\<close> carries no certificate of its caller: it checks the certificate that
  the pinged peer returns and answers \<^verbatim>\<open>Internal\<close>, leaving the node unchanged, when
  that certificate is not admitted.
\<close>

theorem handlers_refuse_unadmitted:
  assumes "isValidSender H n now cert = Inr (False, n')"
  shows "PingWithCertificate H n now cert = (Inl InvalidArgument, n)
       \<and> FindNode H n now cert a = (Inl InvalidArgument, n)
       \<and> FindIndex H n now cert a = (Inl InvalidArgument, n)
       \<and> (Certificate req = cert \<longrightarrow> StoreItem H n now req = (Inl InvalidArgument, n))
       \<and> (cert = OtherCert r \<and> dial net (InfoNetworkAddress info)
            \<and> remotePingWithCertificate net (InfoNetworkAddress info) = Inr r
            \<longrightarrow> PingTo H net n now info = (Inl Internal, n))"
proof -
  have "n' = n" using isValidSender_frame[OF assms] by simp
  with assms show ?thesis
    by (auto simp: PingWithCertificate_def FindNode_def FindIndex_def StoreItem_def PingTo_def)
qed

lemma exampleShortCert_refused:
  "isValidSender sha1 exampleNode 0 (OtherCert exampleShortCert) = Inr (False, exampleNode)"
  by (simp add: isValidSender_def exampleShortCert_def exampleDigest_def addressLength_def)

lemma exampleNode_empty: "list_all (\<lambda>i. routingTable exampleNode i = Some []) [0..159]"
  by (simp add: exampleNode_def NewNode_def list_all_iff addressBits_def)

lemma exampleDigest_nonzero: "toAddress exampleDigest \<noteq> 0"
  using getMostSignificantBit_zero[of "toAddress exampleDigest"] exampleDigest_msb by auto

lemma exampleNode_findNode: "findNode exampleNode (toAddress exampleDigest) = Inr []"
  by (rule findNode_all_empty[OF exampleNode_empty])
     (simp add: xorAddress_def exampleNode_def NewNode_def exampleDigest_nonzero)

text \<open>
  C1 as stated fails for \<^verbatim>\<open>PingTo\<close> and \<^verbatim>\<open>GetIndex\<close>: with a certificate that
  \<^verbatim>\<open>isValidSender\<close> does not admit, \<^verbatim>\<open>PingTo\<close> returns \<^verbatim>\<open>Internal\<close>, and
  \<^verbatim>\<open>GetIndex\<close>, which takes no certificate, returns its (empty) result.
\<close>

theorem handlers_refuse_unadmitted_counterexample:
  "isValidSender sha1 exampleNode 0 (OtherCert exampleShortCert) = Inr (False, exampleNode)
   \<and> PingTo sha1 exampleNetwork exampleNode 0
        \<lparr>InfoDoogleAddress = [], InfoNetworkAddress = ''h:102''\<rparr> = (Inl Internal, exampleNode)
   \<and> GetIndex sha1 exampleNetwork exampleNode 0 ''h:102'' = (Inr [], exampleNode)"
proof -
  have q: "pageRankComputingQueue exampleNode = []" "queueCap exampleNode = 0"
    "dht exampleNode = Map.empty"
    by (simp_all add: exampleNode_def NewNode_def)
  have g: "GetIndex sha1 exampleNetwork exampleNode 0 ''h:102'' = (Inr [], exampleNode)"
    by (simp add: GetIndex_def findIndex_def q exampleDigest_sha1 exampleNode_findNode
          sortSlice_def Let_def)
  show ?thesis
    using exampleShortCert_refused g
    by (simp add: PingTo_def exampleNetwork_def)
qed

theorem handlers_refuse_unadmitted_witness:
  "isValidSender sha1 exampleNode 0 (OtherCert exampleShortCert) = Inr (False, exampleNode)
   \<and> PingWithCertificate sha1 exampleNode 0 (OtherCert exampleShortCert) =
       (Inl InvalidArgument, exampleNode)
   \<and> FindNode sha1 exampleNode 0 (OtherCert exampleShortCert) ''k'' =
       (Inl InvalidArgument, exampleNode)
   \<and> FindIndex sha1 exampleNode 0 (OtherCert exampleShortCert) ''k'' =
       (Inl InvalidArgument, exampleNode)
   \<and> Certificate (exampleRequest\<lparr>Certificate := OtherCert exampleShortCert\<rparr>) =
       OtherCert exampleShortCert
   \<and> StoreItem sha1 exampleNode 0 (exampleRequest\<lparr>Certificate := OtherCert exampleShortCert\<rparr>) =
       (Inl InvalidArgument, exampleNode)
   \<and> dial exampleNetwork ''h:102''
   \<and> remotePingWithCertificate exampleNetwork ''h:102'' = Inr exampleShortCert
   \<and> PingTo sha1 exampleNetwork exampleNode 0
        \<lparr>InfoDoogleAddress = [], InfoNetworkAddress = ''h:102''\<rparr> = (Inl Internal, exampleNode)"
  using exampleShortCert_refused
    handlers_refuse_unadmitted[OF exampleShortCert_refused, of "''k''"
      "exampleRequest\<lparr>Certificate := OtherCert exampleShortCert\<rparr>" exampleShortCert
      exampleNetwork "\<lparr>InfoDoogleAddress = [], InfoNetworkAddress = ''h:102''\<rparr>"]
  by (simp add: exampleNetwork_def)

section \<open>Properties of the query\<close>

lemma exampleNodePeer_findNode:
  "findNode exampleNodePeer (toAddress exampleDigest) =
     Inr [toNodeInfo \<lparr>dAddr = toAddress exampleDigest, nAddr = ''h:102'', accessedAt = 0\<rparr>]"
proof -
  have "getMostSignificantBit (xorAddress (DAddr exampleNodePeer) (toAddress exampleDigest)) = 158"
    using exampleDigest_msb
    by (simp add: exampleNodePeer_def exampleNode_def NewNode_def xorAddress_def)
  then show ?thesis
    unfolding findNode_def
    by (subst findNearestNode.simps)
       (simp add: exampleNodePeer_def nearestPeers_def alpha_def)
qed

lemma exampleItems_merge:
  "length (fst (foldl mergeItem ([], Map.empty) exampleItems)) = 21"
  by (simp add: exampleItems_def mergeItem_def)

text \<open>
  C2. The example node knows one peer. Its \<^verbatim>\<open>GetIndex\<close> for a keyword that it does not
  hold itself asks that peer, which answers with twenty-one items of pairwise different
  urls: the reply lists twenty-one items, more than \<^verbatim>\<open>maxNumGetItem\<close> = 20. The list
  is not truncated.
\<close>

theorem GetIndex_exceeds_maxNumGetItem:
  "map_sum id length (fst (GetIndex sha1 exampleNetwork exampleNodePeer 0 ''h:102'')) = Inr 21
   \<and> maxNumGetItem = 20"
proof -
  obtain ret sm where acc: "foldl mergeItem ([], Map.empty) exampleItems = (ret, sm)"
    by (cases "foldl mergeItem ([], Map.empty) exampleItems")
  have len: "length ret = 21"
    using exampleItems_merge unfolding acc by simp
  have q: "pageRankComputingQueue exampleNodePeer = []" "queueCap exampleNodePeer = 0"
    "dht exampleNodePeer = Map.empty" "nAddrToConn exampleNodePeer = []"
    by (simp_all add: exampleNodePeer_def exampleNode_def NewNode_def)
  have "fst (GetIndex sha1 exampleNetwork exampleNodePeer 0 ''h:102'') =
          Inr (sortSlice (\<lambda>a b. avgOf (setAverages sm) (ItemUrl a)
                                   > avgOf (setAverages sm) (ItemUrl b)) ret)"
    by (simp add: GetIndex_def Let_def findIndex_def q exampleDigest_sha1 exampleNodePeer_findNode
          toNodeInfo_def getConnByNetworkAddress_def exampleNetwork_def acc)
  then show ?thesis
    by (simp add: length_sortSlice len maxNumGetItem_def)
qed

section \<open>Properties of the address derivation\<close>





text \<open>The model on the three cases of \<^verbatim>\<open>TestVerifyAddress\<close>, with the results the test expects.\<close>

lemma testVector_address: "sha1 (''ab'' @ ''80'' @ ''pk'') = testAddress"
  using sha1_ab80pk_digest by (simp add: testAddress_def)


lemma testVector_digest2: "sha1 (''ab'' @ ''80'' @ ''pk'' @ testNonce2) = testDigest2"
  using sha1_vector2_digest by (simp add: testNonce2_def testDigest2_def)


lemma testDigest2_leadingZeroBits: "leadingZeroBits (toAddress testDigest2) = 2"
proof -
  have "getMostSignificantBit (toAddress testDigest2) = 157" by code_simp
  then show ?thesis by (simp add: leadingZeroBits_def addressBits_def)
qed


lemma TestVerifyAddress_case0: "\<not> verifyAddressHostPort sha1 0 [] [] [] [] 10"
proof -
  have "toAddress
     [CHR 0xda, CHR 0x39, CHR 0xa3, CHR 0xee, CHR 0x5e, CHR 0x6b, CHR 0x4b, CHR 0x0d,
      CHR 0x32, CHR 0x55, CHR 0xbf, CHR 0xef, CHR 0x95, CHR 0x60, CHR 0x18, CHR 0x90,
      CHR 0xaf, CHR 0xd8, CHR 0x07, CHR 0x09] \<noteq> 0"
    by code_simp
  then show ?thesis by (simp add: verifyAddressHostPort_def sha1_empty_digest)
qed


lemma TestVerifyAddress_case2:
  "verifyAddressHostPort sha1 (toAddress testAddress) ''ab'' ''80'' ''pk'' testNonce2 2"
  using testVector_address testVector_digest2
  by (simp add: verifyAddressHostPort_def testDigest2_leadingZeroBits)





end
